theory Spec2Isabelle
  imports Main "HOL-Library.Sublist" "HOL-Library.Char_ord" "HOL-Library.List_Lexorder"
begin

section \<open>Go strings\<close>

text \<open>
  A Go \<^verbatim>\<open>string\<close> is a sequence of bytes that normally holds UTF-8 text. It is modelled
  as \<^typ>\<open>string\<close>, a list of 8-bit characters; a code point above U+007F is the list
  of its UTF-8 bytes. The functions of package \<^verbatim>\<open>strings\<close> that the extractor calls are
  written out below, on bytes.
\<close>

text \<open>\<^verbatim>\<open>strings.Contains(s, substr)\<close>.\<close>

fun Contains :: "string \<Rightarrow> string \<Rightarrow> bool" where
  "Contains [] substr = (substr = [])"
| "Contains (c # cs) substr = (prefix substr (c # cs) \<or> Contains cs substr)"

text \<open>\<^verbatim>\<open>strings.Index(s, substr)\<close>: the first index of \<open>substr\<close>, or \<open>-1\<close>.\<close>

fun Index :: "string \<Rightarrow> string \<Rightarrow> int" where
  "Index [] substr = (if substr = [] then 0 else - 1)"
| "Index (c # cs) substr =
     (if prefix substr (c # cs) then 0
      else (let i = Index cs substr in if i < 0 then - 1 else i + 1))"

text \<open>\<^verbatim>\<open>strings.TrimPrefix\<close> and \<^verbatim>\<open>strings.TrimSuffix\<close>.\<close>

definition TrimPrefix :: "string \<Rightarrow> string \<Rightarrow> string" where
  "TrimPrefix s p = (if prefix p s then drop (length p) s else s)"

definition TrimSuffix :: "string \<Rightarrow> string \<Rightarrow> string" where
  "TrimSuffix s p = (if suffix p s then take (length s - length p) s else s)"

text \<open>
  \<^verbatim>\<open>strings.ReplaceAll(s, old, new)\<close> replaces the non-overlapping occurrences of
  \<open>old\<close> from left to right. Every call in the extractor passes a non-empty literal for
  \<open>old\<close> (\<^verbatim>\<open>"??"\<close>, \<^verbatim>\<open>"\r\n"\<close>); the insertion between code points that Go
  performs for an empty \<open>old\<close> is not modelled, and the string is returned as it is.
\<close>

function ReplaceAll :: "string \<Rightarrow> string \<Rightarrow> string \<Rightarrow> string" where
  "ReplaceAll [] old new = []"
| "ReplaceAll (c # cs) old new =
     (if old \<noteq> [] \<and> prefix old (c # cs)
      then new @ ReplaceAll (drop (length old) (c # cs)) old new
      else c # ReplaceAll cs old new)"
  by pat_completeness auto
termination
  by (relation "measure (\<lambda>(s, old, new). length s)") (auto simp: neq_Nil_conv)

text \<open>
  \<^verbatim>\<open>strings.Split(s, sep)\<close> for a non-empty separator: the pieces between the
  occurrences of \<open>sep\<close>, so a string without the separator (the empty string too) gives
  one piece. \<open>SplitAcc\<close> carries the piece being read, reversed.
\<close>

function SplitAcc :: "string \<Rightarrow> string \<Rightarrow> string \<Rightarrow> string list" where
  "SplitAcc acc [] sep = [rev acc]"
| "SplitAcc acc (c # cs) sep =
     (if sep \<noteq> [] \<and> prefix sep (c # cs)
      then rev acc # SplitAcc [] (drop (length sep) (c # cs)) sep
      else SplitAcc (c # acc) cs sep)"
  by pat_completeness auto
termination
  by (relation "measure (\<lambda>(acc, s, sep). length s)") (auto simp: neq_Nil_conv)

definition Split :: "string \<Rightarrow> string \<Rightarrow> string list" where
  "Split s sep = SplitAcc [] s sep"

text \<open>\<^verbatim>\<open>strings.Join(elems, sep)\<close>.\<close>

fun Join :: "string list \<Rightarrow> string \<Rightarrow> string" where
  "Join [] sep = []"
| "Join [x] sep = x"
| "Join (x # y # ys) sep = x @ sep @ Join (y # ys) sep"

text \<open>The lower-case form of an ASCII letter; any other byte is kept.\<close>

definition asciiLower :: "char \<Rightarrow> char" where
  "asciiLower c = (if CHR ''A'' \<le> c \<and> c \<le> CHR ''Z'' then char_of (of_char c + (32::nat)) else c)"

subsection \<open>White space\<close>

text \<open>
  \<^verbatim>\<open>unicode.IsSpace\<close> holds of U+0009 to U+000D, U+0020, U+0085, U+00A0, U+1680,
  U+2000 to U+200A, U+2028, U+2029, U+202F, U+205F and U+3000. \<open>spaceWidth s\<close> is the
  number of bytes of the white-space code point that \<open>s\<close> starts with, and 0 when it
  starts with none; \<open>spaceWidthLast r\<close> is the same for the code point a string ends
  with, read from the reversed string \<open>r\<close>.
\<close>

definition asciiSpace :: "char \<Rightarrow> bool" where
  "asciiSpace c = (c = CHR 0x09 \<or> c = CHR 0x0A \<or> c = CHR 0x0B \<or> c = CHR 0x0C
      \<or> c = CHR 0x0D \<or> c = CHR 0x20)"

definition spaceTail3 :: "char \<Rightarrow> char \<Rightarrow> char \<Rightarrow> bool" where
  "spaceTail3 a b c =
     ((a = CHR 0xE1 \<and> b = CHR 0x9A \<and> c = CHR 0x80)
    \<or> (a = CHR 0xE2 \<and> b = CHR 0x80 \<and>
         ((CHR 0x80 \<le> c \<and> c \<le> CHR 0x8A) \<or> c = CHR 0xA8 \<or> c = CHR 0xA9 \<or> c = CHR 0xAF))
    \<or> (a = CHR 0xE2 \<and> b = CHR 0x81 \<and> c = CHR 0x9F)
    \<or> (a = CHR 0xE3 \<and> b = CHR 0x80 \<and> c = CHR 0x80))"

fun spaceWidth :: "string \<Rightarrow> nat" where
  "spaceWidth [] = 0"
| "spaceWidth [a] = (if asciiSpace a then 1 else 0)"
| "spaceWidth [a, b] =
     (if asciiSpace a then 1
      else if a = CHR 0xC2 \<and> (b = CHR 0x85 \<or> b = CHR 0xA0) then 2 else 0)"
| "spaceWidth (a # b # c # cs) =
     (if asciiSpace a then 1
      else if a = CHR 0xC2 \<and> (b = CHR 0x85 \<or> b = CHR 0xA0) then 2
      else if spaceTail3 a b c then 3 else 0)"

fun spaceWidthLast :: "string \<Rightarrow> nat" where
  "spaceWidthLast [] = 0"
| "spaceWidthLast [a] = (if asciiSpace a then 1 else 0)"
| "spaceWidthLast [b, a] =
     (if asciiSpace b then 1
      else if a = CHR 0xC2 \<and> (b = CHR 0x85 \<or> b = CHR 0xA0) then 2 else 0)"
| "spaceWidthLast (c # b # a # cs) =
     (if asciiSpace c then 1
      else if b = CHR 0xC2 \<and> (c = CHR 0x85 \<or> c = CHR 0xA0) then 2
      else if spaceTail3 a b c then 3 else 0)"

lemma spaceWidth_le: "spaceWidth s \<le> length s"
  by (induction s rule: spaceWidth.induct) auto

lemma spaceWidthLast_le: "spaceWidthLast s \<le> length s"
  by (induction s rule: spaceWidthLast.induct) auto

text \<open>
  \<^verbatim>\<open>strings.TrimSpace(s)\<close> removes the white-space code points at both ends. Bytes
  that are not valid UTF-8 decode to U+FFFD, which is not white space, so they stop the
  trimming as any other character does.
\<close>

function TrimLeftSpace :: "string \<Rightarrow> string" where
  "TrimLeftSpace s = (if spaceWidth s = 0 then s else TrimLeftSpace (drop (spaceWidth s) s))"
  by pat_completeness auto
termination
proof (relation "measure length")
  fix s :: string
  assume "spaceWidth s \<noteq> 0"
  moreover have "spaceWidth s \<le> length s" by (rule spaceWidth_le)
  ultimately show "(drop (spaceWidth s) s, s) \<in> measure length" by simp
qed simp

text \<open>\<open>TrimRightRev\<close> works on the reversed string.\<close>

function TrimRightRev :: "string \<Rightarrow> string" where
  "TrimRightRev r =
     (if spaceWidthLast r = 0 then r else TrimRightRev (drop (spaceWidthLast r) r))"
  by pat_completeness auto
termination
proof (relation "measure length")
  fix r :: string
  assume "spaceWidthLast r \<noteq> 0"
  moreover have "spaceWidthLast r \<le> length r" by (rule spaceWidthLast_le)
  ultimately show "(drop (spaceWidthLast r) r, r) \<in> measure length" by simp
qed simp

definition TrimSpace :: "string \<Rightarrow> string" where
  "TrimSpace s = rev (TrimRightRev (rev (TrimLeftSpace s)))"

declare TrimLeftSpace.simps [simp del] TrimRightRev.simps [simp del]

section \<open>Errors\<close>

text \<open>
  Every \<^verbatim>\<open>fmt.Errorf\<close> of the extractor is a constructor; an error that wraps another
  one with \<^verbatim>\<open>%v\<close> carries it. \<open>LibraryError\<close> is an error returned by a library
  (\<^verbatim>\<open>os\<close>, \<^verbatim>\<open>io\<close>, \<^verbatim>\<open>encoding/json\<close>, \<^verbatim>\<open>html\<close>, the UTF-16 decoder), with its
  message. \<open>IndexParse\<close> stands for the error of \<^verbatim>\<open>getNestedValue\<close> that wraps the
  scanner's error.
\<close>

datatype error =
    KeyNotFound string
  | IndexParse
  | IndexRange int
  | HTMLContentError error
  | HTMLValuesError error
  | HTMLParseError error
  | ValueExtractError error
  | RegexCompileError
  | FileReadError string error
  | JSONParseError string error
  | ItemError error
  | WorkerError string error
  | LibraryError string

section \<open>Decoded JSON and HTML trees\<close>

text \<open>
  \<^verbatim>\<open>encoding/json\<close> decodes a number into a \<^verbatim>\<open>float64\<close>: a finite double, here the
  pair of a mantissa \<open>m\<close> and an exponent \<open>e\<close> for the value \<open>m * 2^e\<close>.

  A JSON document is a tree. The entries of an object are kept in the order of the
  document; decoded into a Go map, a later entry with the same key replaces an earlier
  one, which \<open>mapLookup\<close> and \<open>mapEntries\<close> follow.
\<close>

datatype float64 = Float64 int int

datatype json =
    JNull
  | JBool bool
  | JNumber float64
  | JString string
  | JArray "json list"
  | JObject "(string \<times> json) list"

definition mapLookup :: "(string \<times> 'v) list \<Rightarrow> string \<Rightarrow> 'v option" where
  "mapLookup kvs k = map_of (rev kvs) k"

text \<open>The entries of the Go map, sorted by key as \<^verbatim>\<open>fmt\<close> prints them.\<close>

definition mapEntries :: "(string \<times> 'v) list \<Rightarrow> (string \<times> 'v) list" where
  "mapEntries kvs =
     List.map_filter (\<lambda>k. map_option (Pair k) (mapLookup kvs k)) (sort (remdups (map fst kvs)))"

text \<open>
  \<^verbatim>\<open>html.Node\<close> of \<^verbatim>\<open>golang.org/x/net/html\<close>: the type of the node, its \<^verbatim>\<open>Data\<close>
  (the text of a text node, the tag name of an element) and its children in order. The
  extractor reads no attribute, so they are left out.
\<close>

datatype NodeType =
  ErrorNode | TextNode | DocumentNode | ElementNode | CommentNode | DoctypeNode | RawNode

datatype Node = Node (Type: NodeType) (Data: string) (children: "Node list")

section \<open>Libraries\<close>

text \<open>
  The extractor calls libraries whose code is not part of the repository. Their
  functions are parameters of the model, collected in one record, and every theorem
  holds for all of them:
  \<^item> \<open>MatchString pattern s\<close> is \<^verbatim>\<open>regexp.MatchString(pattern, s)\<close>: \<open>None\<close> when the
    pattern does not compile, else whether some substring of \<open>s\<close> matches;
  \<^item> \<open>ToLower\<close> is \<^verbatim>\<open>strings.ToLower\<close> (Unicode lower-casing);
  \<^item> \<open>Parse\<close> is \<^verbatim>\<open>html.Parse\<close> applied to a reader of the string (also behind
    \<^verbatim>\<open>goquery.NewDocumentFromReader\<close>);
  \<^item> \<open>UnescapeString\<close> is \<^verbatim>\<open>html.UnescapeString\<close>;
  \<^item> \<open>Select doc selector\<close> is what \<^verbatim>\<open>doc.Find(selector)\<close> of goquery selects for a
    CSS selector that is not a plain tag name (no element when the selector does not
    parse);
  \<^item> \<open>FormatFloat\<close> is the \<^verbatim>\<open>%v\<close> rendering of a \<^verbatim>\<open>float64\<close>;
  \<^item> \<open>MapRange\<close> is the order in which a \<^verbatim>\<open>range\<close> loop visits the entries of a map,
    which Go leaves unspecified;
  \<^item> \<open>ReadFile\<close> is \<^verbatim>\<open>os.Open\<close> followed by \<^verbatim>\<open>io.ReadAll\<close>;
  \<^item> \<open>DecodeUTF16\<close> is the little-endian UTF-16 decoder with a byte order mark of
    \<^verbatim>\<open>golang.org/x/text\<close>, run over the whole file;
  \<^item> \<open>ParseJSON\<close> is the JSON grammar of \<^verbatim>\<open>encoding/json\<close>: the document tree of a
    well-formed text, an error otherwise.
\<close>

record Lib =
  MatchString :: "string \<Rightarrow> string \<Rightarrow> bool option"
  ToLower :: "string \<Rightarrow> string"
  Parse :: "string \<Rightarrow> error + Node"
  UnescapeString :: "string \<Rightarrow> string"
  Select :: "Node \<Rightarrow> string \<Rightarrow> Node list"
  FormatFloat :: "float64 \<Rightarrow> string"
  MapRange :: "(string \<times> string) list \<Rightarrow> (string \<times> string) list"
  ReadFile :: "string \<Rightarrow> error + string"
  DecodeUTF16 :: "string \<Rightarrow> error + string"
  ParseJSON :: "string \<Rightarrow> error + json"

section \<open>The JSON path resolver\<close>

text \<open>
  \<^verbatim>\<open>fmt.Sprintf("%v", data)\<close> for a decoded JSON value: \<^verbatim>\<open><nil>\<close> for null,
  \<^verbatim>\<open>true\<close>/\<^verbatim>\<open>false\<close>, the number, the string itself, \<^verbatim>\<open>[a b c]\<close> for a slice and
  \<^verbatim>\<open>map[k:v k:v]\<close> with sorted keys for a map.
\<close>

fun Sprintf_v :: "Lib \<Rightarrow> json \<Rightarrow> string" where
  "Sprintf_v lib JNull = ''<nil>''"
| "Sprintf_v lib (JBool b) = (if b then ''true'' else ''false'')"
| "Sprintf_v lib (JNumber f) = FormatFloat lib f"
| "Sprintf_v lib (JString s) = s"
| "Sprintf_v lib (JArray xs) = ''['' @ Join (map (Sprintf_v lib) xs) '' '' @ '']''"
| "Sprintf_v lib (JObject kvs) =
     ''map['' @
     Join (map (\<lambda>kv. fst kv @ '':'' @ snd kv)
             (mapEntries (map (\<lambda>kv. (fst kv, Sprintf_v lib (snd kv))) kvs))) '' '' @
     '']''"

text \<open>
  \<^verbatim>\<open>fmt.Sscanf(key, "[%d]", &index)\<close>, as package \<^verbatim>\<open>fmt\<close> scans it: the input must
  start with \<^verbatim>\<open>[\<close>; the verb \<^verbatim>\<open>%d\<close> skips white space (a newline is an error), accepts
  one sign, then reads the longest run of digits and underscores, which
  \<^verbatim>\<open>strconv.ParseInt(tok, 10, 64)\<close> must accept (it refuses an underscore and a value
  outside 64 bits); then the input must go on with \<^verbatim>\<open>]\<close>. What follows is not read.
  \<open>None\<close> is any error of the scan. \<^verbatim>\<open>int\<close> has 64 bits.
\<close>

definition isDigit :: "char \<Rightarrow> bool" where
  "isDigit c = (CHR ''0'' \<le> c \<and> c \<le> CHR ''9'')"

definition digitValue :: "char \<Rightarrow> int" where
  "digitValue c = int (of_char c) - 48"

definition decimalValue :: "string \<Rightarrow> int" where
  "decimalValue ds = foldl (\<lambda>acc c. 10 * acc + digitValue c) 0 ds"

definition ParseInt :: "string \<Rightarrow> int option" where
  "ParseInt tok =
     (let neg = (tok \<noteq> [] \<and> hd tok = CHR ''-'');
          ds = (if tok \<noteq> [] \<and> (hd tok = CHR ''+'' \<or> hd tok = CHR ''-'') then tl tok else tok)
      in if ds = [] \<or> \<not> list_all isDigit ds then None
         else if neg then
           (if decimalValue ds \<le> 2 ^ 63 then Some (- decimalValue ds) else None)
         else
           (if decimalValue ds < 2 ^ 63 then Some (decimalValue ds) else None))"

function SkipSpace :: "string \<Rightarrow> string option" where
  "SkipSpace [] = Some []"
| "SkipSpace (c # cs) =
     (if c = CHR 0x0D \<and> prefix [CHR 0x0A] cs then SkipSpace cs
      else if c = CHR 0x0A then None
      else if spaceWidth (c # cs) = 0 then Some (c # cs)
      else SkipSpace (drop (spaceWidth (c # cs)) (c # cs)))"
  by pat_completeness auto
termination
proof (relation "measure length")
  fix c :: char and cs :: string
  assume "spaceWidth (c # cs) \<noteq> 0"
  then show "(drop (spaceWidth (c # cs)) (c # cs), c # cs) \<in> measure length"
    by simp
qed simp_all

text \<open>
  The verb \<^verbatim>\<open>%d\<close> on the input that is left once the white space is skipped: the
  number read and the input after it.
\<close>

definition scanInt :: "string \<Rightarrow> (int \<times> string) option" where
  "scanInt r =
     (case r of
        [] \<Rightarrow> None
      | d # ds \<Rightarrow>
          (let sgn = (if d = CHR ''+'' \<or> d = CHR ''-'' then [d] else []);
               r' = (if d = CHR ''+'' \<or> d = CHR ''-'' then ds else d # ds);
               tok = takeWhile (\<lambda>x. isDigit x \<or> x = CHR ''_'') r'
           in if tok = [] then None
              else (case ParseInt (sgn @ tok) of
                      None \<Rightarrow> None
                    | Some n \<Rightarrow> Some (n, dropWhile (\<lambda>x. isDigit x \<or> x = CHR ''_'') r'))))"

definition Sscanf_index :: "string \<Rightarrow> int option" where
  "Sscanf_index key =
     (case key of
        [] \<Rightarrow> None
      | c # rest \<Rightarrow>
          if c \<noteq> CHR ''['' then None
          else (case SkipSpace rest of
                  None \<Rightarrow> None
                | Some r \<Rightarrow>
                    (case scanInt r of
                       None \<Rightarrow> None
                     | Some (n, r') \<Rightarrow>
                         (case r' of
                            [] \<Rightarrow> None
                          | e # tail \<Rightarrow> if e = CHR '']'' then Some n else None))))"

text \<open>
  \<^verbatim>\<open>
  func getNestedValue(data interface{}, keys []string) (string, error) {
      for _, key := range keys {
          switch v := data.(type) {
          case map[string]interface{}:
              var ok bool
              data, ok = v[key]
              if !ok { return "", fmt.Errorf("key '%s' not found", key) }
          case []interface{}:
              index := 0
              _, err := fmt.Sscanf(key, "[%d]", &index)
              if err != nil { return "", fmt.Errorf("index parse: %v", err) }
              if index >= 0 && index < len(v) {
                  data = v[index]
              } else {
                  return "", fmt.Errorf("index %d out of range", index)
              }
          default:
              return fmt.Sprintf("%v", data), nil
          }
      }
      return fmt.Sprintf("%v", data), nil
  }
  \<close>
  (the messages are Japanese in the source). The loop over \<open>keys\<close> is the recursion.
\<close>

fun getNestedValue :: "Lib \<Rightarrow> json \<Rightarrow> string list \<Rightarrow> error + string" where
  "getNestedValue lib data [] = Inr (Sprintf_v lib data)"
| "getNestedValue lib data (key # keys) =
     (case data of
        JObject v \<Rightarrow>
          (case mapLookup v key of
             None \<Rightarrow> Inl (KeyNotFound key)
           | Some d \<Rightarrow> getNestedValue lib d keys)
      | JArray v \<Rightarrow>
          (case Sscanf_index key of
             None \<Rightarrow> Inl IndexParse
           | Some index \<Rightarrow>
               if 0 \<le> index \<and> index < int (length v)
               then getNestedValue lib (v ! nat index) keys
               else Inl (IndexRange index))
      | _ \<Rightarrow> Inr (Sprintf_v lib data))"

section \<open>HTML trees: the selections of goquery\<close>

text \<open>
  \<^verbatim>\<open>Selection.Text()\<close> is the data of the text nodes below a node, in document order.
\<close>

fun nodeText :: "Node \<Rightarrow> string" where
  "nodeText (Node t d cs) = (if t = TextNode then d else []) @ concat (map nodeText cs)"

text \<open>\<^verbatim>\<open>goquery.NodeName\<close> of a selection of one node.\<close>

definition NodeName :: "Node \<Rightarrow> string" where
  "NodeName n =
     (case Type n of
        ElementNode \<Rightarrow> Data n
      | DoctypeNode \<Rightarrow> Data n
      | ErrorNode \<Rightarrow> ''#error''
      | TextNode \<Rightarrow> ''#text''
      | DocumentNode \<Rightarrow> ''#document''
      | CommentNode \<Rightarrow> ''#comment''
      | RawNode \<Rightarrow> [])"

text \<open>
  \<^verbatim>\<open>doc.Find(selector)\<close> selects among the nodes below the root, in document order.
  A selector that is a plain name (an ASCII letter, then ASCII letters and digits, as
  the extractor's own \<^verbatim>\<open>"p"\<close> and a tag name such as \<^verbatim>\<open>h1\<close>) is a type selector: its
  lower-case form is compared with the name of each element. Every other selector of
  the CSS grammar is left to the library parameter \<open>Select\<close>.
\<close>

fun descendants :: "Node \<Rightarrow> Node list" where
  "descendants (Node t d cs) = concat (map (\<lambda>c. c # descendants c) cs)"

definition isLetter :: "char \<Rightarrow> bool" where
  "isLetter c = ((CHR ''A'' \<le> c \<and> c \<le> CHR ''Z'') \<or> (CHR ''a'' \<le> c \<and> c \<le> CHR ''z''))"

definition isTagName :: "string \<Rightarrow> bool" where
  "isTagName selector =
     (case selector of
        [] \<Rightarrow> False
      | c # cs \<Rightarrow> isLetter c \<and> list_all (\<lambda>x. isLetter x \<or> isDigit x) cs)"

definition Find :: "Lib \<Rightarrow> Node \<Rightarrow> string \<Rightarrow> Node list" where
  "Find lib doc selector =
     (if isTagName selector
      then filter (\<lambda>n. Type n = ElementNode \<and> Data n = map asciiLower selector) (descendants doc)
      else Select lib doc selector)"

section \<open>Cleaning\<close>

text \<open>
  The regular expressions below are constants of the source, so each replacement is
  written out as a function. In Go's syntax \<^verbatim>\<open>\s\<close> is the class of tab, newline, form
  feed, carriage return and space, \<^verbatim>\<open>\S\<close> its complement, \<^verbatim>\<open>\d\<close> the ASCII digits,
  and \<^verbatim>\<open>.\<close> any character but newline.
\<close>

definition reSpace :: "char \<Rightarrow> bool" where
  "reSpace c = (c = CHR 0x09 \<or> c = CHR 0x0A \<or> c = CHR 0x0C \<or> c = CHR 0x0D \<or> c = CHR 0x20)"

text \<open>\<^verbatim>\<open>regexp.MustCompile(`\s+`).ReplaceAllString(s, " ")\<close>.\<close>

function collapseSpace :: "string \<Rightarrow> string" where
  "collapseSpace [] = []"
| "collapseSpace (c # cs) =
     (if reSpace c then CHR '' '' # collapseSpace (dropWhile reSpace cs)
      else c # collapseSpace cs)"
  by pat_completeness auto
termination
  by (relation "measure length") (auto simp: less_Suc_eq_le length_dropWhile_le)

text \<open>
  \<^verbatim>\<open>regexp.MustCompile(`:\S`).ReplaceAllStringFunc(s, func(s string) string {
      return s[:1] + " " + s[1:] })\<close>:
  the matches are found from left to right and do not overlap, so the character after
  a matched colon is not looked at again. A character of several bytes after the colon
  is copied whole either way, since none of its bytes is a colon.
\<close>

fun colonSpace :: "string \<Rightarrow> string" where
  "colonSpace [] = []"
| "colonSpace [c] = [c]"
| "colonSpace (c # d # cs) =
     (if c = CHR '':'' \<and> \<not> reSpace d then CHR '':'' # CHR '' '' # d # colonSpace cs
      else c # colonSpace (d # cs))"

text \<open>\<^verbatim>\<open>regexp.MustCompile(`\s{2,}`).ReplaceAllString(s, " ")\<close>.\<close>

function collapseSpace2 :: "string \<Rightarrow> string" where
  "collapseSpace2 [] = []"
| "collapseSpace2 (c # cs) =
     (if reSpace c \<and> takeWhile reSpace cs \<noteq> []
      then CHR '' '' # collapseSpace2 (dropWhile reSpace cs)
      else c # collapseSpace2 cs)"
  by pat_completeness auto
termination
  by (relation "measure length") (auto simp: less_Suc_eq_le length_dropWhile_le)

text \<open>
  \<^verbatim>\<open>regexp.MustCompile(`<at id="\d+">[^<]+</at>`).ReplaceAllString(s, "")\<close>.
  \<open>matchAt s\<close> is what follows a match that starts at the head of \<open>s\<close>.
\<close>

definition matchAt :: "string \<Rightarrow> string option" where
  "matchAt s =
     (if \<not> prefix ''<at id=\"'' s then None
      else let r1 = drop 8 s;
               r2 = dropWhile isDigit r1
           in if takeWhile isDigit r1 = [] \<or> \<not> prefix ''\">'' r2 then None
              else let r3 = drop 2 r2;
                       r4 = dropWhile (\<lambda>c. c \<noteq> CHR ''<'') r3
                   in if takeWhile (\<lambda>c. c \<noteq> CHR ''<'') r3 = [] \<or> \<not> prefix ''</at>'' r4
                      then None
                      else Some (drop 5 r4))"

lemma matchAt_shorter: "matchAt s = Some r \<Longrightarrow> length r < length s"
proof -
  assume m: "matchAt s = Some r"
  then have p: "prefix ''<at id=\"'' s"
    by (auto simp: matchAt_def split: if_splits)
  then have l: "8 \<le> length s"
    by (auto simp: prefix_def)
  have "length r \<le> length (drop 8 s)"
  proof -
    let ?r1 = "drop 8 s"
    let ?r2 = "dropWhile isDigit ?r1"
    let ?r3 = "drop 2 ?r2"
    let ?r4 = "dropWhile (\<lambda>c. c \<noteq> CHR ''<'') ?r3"
    from m have "r = drop 5 ?r4"
      by (auto simp: matchAt_def Let_def split: if_splits)
    then have "length r \<le> length ?r4" by simp
    also have "\<dots> \<le> length ?r3" by (rule length_dropWhile_le)
    also have "\<dots> \<le> length ?r2" by simp
    also have "\<dots> \<le> length ?r1" by (rule length_dropWhile_le)
    finally show ?thesis .
  qed
  with l show ?thesis by simp
qed

function removeAtMentions :: "string \<Rightarrow> string" where
  "removeAtMentions [] = []"
| "removeAtMentions (c # cs) =
     (case matchAt (c # cs) of
        Some r \<Rightarrow> removeAtMentions r
      | None \<Rightarrow> c # removeAtMentions cs)"
  by pat_completeness auto
termination
  by (relation "measure length") (auto dest: matchAt_shorter)

text \<open>
  \<^verbatim>\<open>regexp.MustCompile(`@\{contentType=html; content=.*?\}`).ReplaceAllString(s, "")\<close>:
  after the literal prefix (an at sign, an opening brace and
  \<^verbatim>\<open>contentType=html; content=\<close>, the constant \<open>contentPrefix\<close>) the match runs to
  the first closing brace, and there is none when a newline comes first.
\<close>

definition contentPrefix :: string where
  "contentPrefix = CHR ''@'' # ''{contentType=html; content=''"

definition matchContentType :: "string \<Rightarrow> string option" where
  "matchContentType s =
     (if \<not> prefix contentPrefix s then None
      else (case dropWhile (\<lambda>c. c \<noteq> CHR ''}'' \<and> c \<noteq> CHR 0x0A)
                  (drop (length contentPrefix) s) of
              [] \<Rightarrow> None
            | e # r \<Rightarrow> if e = CHR ''}'' then Some r else None))"

lemma matchContentType_shorter: "matchContentType s = Some r \<Longrightarrow> length r < length s"
proof -
  assume m: "matchContentType s = Some r"
  let ?d = "dropWhile (\<lambda>c. c \<noteq> CHR ''}'' \<and> c \<noteq> CHR 0x0A) (drop (length contentPrefix) s)"
  from m obtain e where "?d = e # r"
    by (auto simp: matchContentType_def split: if_splits list.splits)
  then have "Suc (length r) = length ?d" by simp
  also have "\<dots> \<le> length (drop (length contentPrefix) s)" by (rule length_dropWhile_le)
  also have "\<dots> \<le> length s" by simp
  finally show ?thesis by simp
qed

function removeContentType :: "string \<Rightarrow> string" where
  "removeContentType [] = []"
| "removeContentType (c # cs) =
     (case matchContentType (c # cs) of
        Some r \<Rightarrow> removeContentType r
      | None \<Rightarrow> c # removeContentType cs)"
  by pat_completeness auto
termination
  by (relation "measure length") (auto dest: matchContentType_shorter)

text \<open>
  \<^verbatim>\<open>
  func cleanContent(input string) string {
      if input == "" { return "" }
      input = strings.TrimPrefix(input, contentPrefix)
      input = strings.TrimSuffix(input, "}")
      input = strings.TrimSpace(input)
      space := regexp.MustCompile(`\s{2,}`)
      input = space.ReplaceAllString(input, " ")
      input = html.UnescapeString(input)
      contentTypeRegex := regexp.MustCompile(`@\{contentType=html; content=.*?\}`)
      input = contentTypeRegex.ReplaceAllString(input, "")
      return input
  }
  \<close>
  where \<^verbatim>\<open>contentPrefix\<close> stands for the string literal of the source.
\<close>

definition cleanContent :: "Lib \<Rightarrow> string \<Rightarrow> string" where
  "cleanContent lib input =
     (if input = [] then []
      else removeContentType
             (UnescapeString lib
               (collapseSpace2
                 (TrimSpace
                   (TrimSuffix (TrimPrefix input contentPrefix) ''}'')))))"

text \<open>
  The closure \<^verbatim>\<open>f\<close> of \<^verbatim>\<open>cleanHTMLContent\<close> writes the data of every text node and
  \<^verbatim>\<open><br>\<close> for every \<^verbatim>\<open>br\<close> element to the buffer, in document order:
  \<^verbatim>\<open>
  f = func(n *html.Node) {
      if n.Type == html.TextNode {
          buf.WriteString(n.Data)
      } else if n.Type == html.ElementNode && n.Data == "br" {
          buf.WriteString("<br>")
      }
      for c := n.FirstChild; c != nil; c = c.NextSibling { f(c) }
  }
  \<close>
\<close>

fun collectText :: "Node \<Rightarrow> string" where
  "collectText (Node t d cs) =
     (if t = TextNode then d
      else if t = ElementNode \<and> d = ''br'' then ''<br>''
      else []) @ concat (map collectText cs)"

text \<open>
  \<^verbatim>\<open>
  func cleanHTMLContent(content string) string {
      if profileName == "teams" || profileName == "replies" {
          atPattern := `<at id="\d+">[^<]+</at>`
          re := regexp.MustCompile(atPattern)
          content = re.ReplaceAllString(content, "")
      }
      doc, err := html.Parse(strings.NewReader(content))
      if err != nil { return content }
      var buf strings.Builder
      ... f(doc)
      result := regexp.MustCompile(`\s+`).ReplaceAllString(buf.String(), " ")
      result = regexp.MustCompile(`:\S`).ReplaceAllStringFunc(result, ...)
      result = strings.ReplaceAll(result, "??", ": ")
      if profileName == "teams" || profileName == "replies" {
          result = cleanContent(result)
      }
      return strings.TrimSpace(result)
  }
  \<close>
  \<open>profileName\<close> is a package-level variable, here the second argument.
\<close>

definition cleanHTMLContent :: "Lib \<Rightarrow> string \<Rightarrow> string \<Rightarrow> string" where
  "cleanHTMLContent lib profileName content =
     (let chat = (profileName = ''teams'' \<or> profileName = ''replies'');
          content = (if chat then removeAtMentions content else content)
      in case Parse lib content of
           Inl err \<Rightarrow> content
         | Inr doc \<Rightarrow>
             (let result = collapseSpace (collectText doc);
                  result = colonSpace result;
                  result = ReplaceAll result ''??'' '': '';
                  result = (if chat then cleanContent lib result else result)
              in TrimSpace result))"

text \<open>
  \<^verbatim>\<open>cleanValue\<close> is defined in the source and called nowhere:
  \<^verbatim>\<open>
  func cleanValue(value string) string {
      value = strings.ReplaceAll(value, "\u00A0", " ")
      value = regexp.MustCompile(`\s+`).ReplaceAllString(value, " ")
      return strings.TrimSpace(value)
  }
  \<close>
\<close>

definition cleanValue :: "string \<Rightarrow> string" where
  "cleanValue value = TrimSpace (collapseSpace (ReplaceAll value [CHR 0xC2, CHR 0xA0] '' ''))"

section \<open>Configuration\<close>

text \<open>
  The extractor keeps its configuration in the package-level variable \<open>config\<close>, read
  once at start-up. The model passes it to every function that reads it.
\<close>

record Config =
  NewlineHandling :: string
  NewlineReplacement :: string
  NullValueHandling :: string

section \<open>Null policy\<close>

text \<open>
  \<^verbatim>\<open>
  func handleNullValue(value string) string {
      if value == "" || value == "<nil>" {
          switch config.NullValueHandling {
          case "null":  return "null"
          case "nil":   return "nil"
          case "empty": return ""
          default:      return ""
          }
      }
      return value
  }
  \<close>
\<close>

definition handleNullValue :: "Config \<Rightarrow> string \<Rightarrow> string" where
  "handleNullValue cfg v =
     (if v = [] \<or> v = ''<nil>'' then
        (if NullValueHandling cfg = ''null'' then ''null''
         else if NullValueHandling cfg = ''nil'' then ''nil''
         else if NullValueHandling cfg = ''empty'' then []
         else [])
      else v)"

text \<open>
  \<^verbatim>\<open>
  func handleNewlines(input string) string {
      switch config.NewlineHandling {
      case "keep":    return input
      case "remove":  return strings.ReplaceAll(input, "\r\n", "")
      case "replace": return strings.ReplaceAll(input, "\r\n", config.NewlineReplacement)
      default:        return input
      }
  }
  \<close>
\<close>

definition handleNewlines :: "Config \<Rightarrow> string \<Rightarrow> string" where
  "handleNewlines cfg input =
     (if NewlineHandling cfg = ''keep'' then input
      else if NewlineHandling cfg = ''remove'' then ReplaceAll input [CHR 0x0D, CHR 0x0A] []
      else if NewlineHandling cfg = ''replace''
        then ReplaceAll input [CHR 0x0D, CHR 0x0A] (NewlineReplacement cfg)
      else input)"

text \<open>
  \<^verbatim>\<open>
  func isEmptyOrAllNull(row []string) bool {
      for _, value := range row {
          if value != "" && value != handleNullValue("") { return false }
      }
      return true
  }
  \<close>
\<close>

fun isEmptyOrAllNull :: "Config \<Rightarrow> string list \<Rightarrow> bool" where
  "isEmptyOrAllNull cfg [] = True"
| "isEmptyOrAllNull cfg (v # row) =
     (if v \<noteq> [] \<and> v \<noteq> handleNullValue cfg [] then False else isEmptyOrAllNull cfg row)"

section \<open>Profiles\<close>

record Column =
  Key :: string
  Column :: string
  Regex :: string
  Keywords :: "string list"
  ExactMatch :: bool
  ExtractToEnd :: bool
  Format :: string
  CleanHTML :: bool
  Tag :: string

record Profile =
  Columns :: "Column list"
  OutputFile :: string
  ParseBody :: string
  ContentType :: string

text \<open>The package-level variables that the row builder reads.\<close>

record Globals =
  config :: Config
  profileName :: string

definition getHeaders :: "Profile \<Rightarrow> string list" where
  "getHeaders profile = map Column (Columns profile)"

section \<open>The column matcher\<close>

fun containsExact :: "string list \<Rightarrow> string \<Rightarrow> bool" where
  "containsExact [] item = False"
| "containsExact (s # slice) item = (if s = item then True else containsExact slice item)"

text \<open>
  \<^verbatim>\<open>
  func matchColumn(key string, column Column) bool {
      if column.ExactMatch {
          return key == column.Regex || containsExact(column.Keywords, key)
      }
      if column.Regex != "" {
          match, _ := regexp.MatchString("^"+column.Regex+"$", key)
          if match { return true }
      }
      for _, keyword := range column.Keywords {
          if strings.Contains(strings.ToLower(key), strings.ToLower(keyword)) {
              return true
          }
      }
      return false
  }
  \<close>
  The error of \<^verbatim>\<open>regexp.MatchString\<close> is dropped, and with an error \<open>match\<close> is false.
  \<open>anchored\<close> is the pattern that is compiled, \<open>regexMatch\<close> the value of \<open>match\<close>,
  \<open>keywordMatch\<close> the loop over the keywords.
\<close>

definition anchored :: "string \<Rightarrow> string" where
  "anchored regex = ''^'' @ regex @ ''$''"

definition regexMatch :: "Lib \<Rightarrow> string \<Rightarrow> string \<Rightarrow> bool" where
  "regexMatch lib regex key =
     (case MatchString lib (anchored regex) key of Some match \<Rightarrow> match | None \<Rightarrow> False)"

fun keywordMatch :: "Lib \<Rightarrow> string \<Rightarrow> string list \<Rightarrow> bool" where
  "keywordMatch lib key [] = False"
| "keywordMatch lib key (keyword # keywords) =
     (if Contains (ToLower lib key) (ToLower lib keyword) then True
      else keywordMatch lib key keywords)"

definition matchColumn :: "Lib \<Rightarrow> string \<Rightarrow> Column \<Rightarrow> bool" where
  "matchColumn lib key column =
     (if ExactMatch column then key = Regex column \<or> containsExact (Keywords column) key
      else if Regex column \<noteq> [] \<and> regexMatch lib (Regex column) key then True
      else keywordMatch lib key (Keywords column))"

section \<open>The HTML field extractor\<close>

text \<open>
  A Go map with string keys and values is the list of its entries, one per key;
  \<open>mapPut\<close> is the assignment \<^verbatim>\<open>m[k] = v\<close> and \<open>mapGet\<close> the read \<^verbatim>\<open>m[k]\<close>, which
  gives the empty string for a missing key (and for every key of a nil map).
\<close>

fun mapPut :: "(string \<times> string) list \<Rightarrow> string \<Rightarrow> string \<Rightarrow> (string \<times> string) list" where
  "mapPut [] k v = [(k, v)]"
| "mapPut ((k', v') # m) k v = (if k' = k then (k, v) # m else (k', v') # mapPut m k v)"

definition mapGet :: "(string \<times> string) list \<Rightarrow> string \<Rightarrow> string" where
  "mapGet m k = (case map_of m k of Some v \<Rightarrow> v | None \<Rightarrow> [])"

text \<open>
  The walk over the children of one \<^verbatim>\<open><p>\<close>:
  \<^verbatim>\<open>
  s.Contents().Each(func(j int, node *goquery.Selection) {
      if goquery.NodeName(node) == "strong" {
          if currentKey != "" {
              keyValuePairs[currentKey] = strings.TrimSpace(currentValue.String())
              currentValue.Reset()
          }
          currentKey = strings.TrimSuffix(strings.TrimSpace(node.Text()), ":")
      } else {
          currentValue.WriteString(node.Text())
      }
  })
  if currentKey != "" {
      keyValuePairs[currentKey] = strings.TrimSpace(currentValue.String())
  }
  \<close>
  The state of the walk is \<open>(currentKey, currentValue, keyValuePairs)\<close>.
\<close>

type_synonym harvest_state = "string \<times> string \<times> (string \<times> string) list"

definition harvestNode :: "harvest_state \<Rightarrow> Node \<Rightarrow> harvest_state" where
  "harvestNode st node =
     (case st of (currentKey, currentValue, keyValuePairs) \<Rightarrow>
        if NodeName node = ''strong'' then
          (TrimSuffix (TrimSpace (nodeText node)) '':'',
           (if currentKey \<noteq> [] then [] else currentValue),
           (if currentKey \<noteq> [] then mapPut keyValuePairs currentKey (TrimSpace currentValue)
            else keyValuePairs))
        else (currentKey, currentValue @ nodeText node, keyValuePairs))"

definition harvestP :: "(string \<times> string) list \<Rightarrow> Node \<Rightarrow> (string \<times> string) list" where
  "harvestP keyValuePairs p =
     (case foldl harvestNode ([], [], keyValuePairs) (children p) of
        (currentKey, currentValue, kvs) \<Rightarrow>
          if currentKey \<noteq> [] then mapPut kvs currentKey (TrimSpace currentValue) else kvs)"

definition harvest :: "Lib \<Rightarrow> Node \<Rightarrow> (string \<times> string) list" where
  "harvest lib doc = foldl harvestP [] (Find lib doc ''p'')"

text \<open>
  \<^verbatim>\<open>
  func extractTagContent(doc *goquery.Document, tagName string) string {
      var content string
      doc.Find(tagName).Each(func(i int, s *goquery.Selection) {
          content += s.Text() + " "
      })
      return strings.TrimSpace(content)
  }
  \<close>
\<close>

definition extractTagContent :: "Lib \<Rightarrow> Node \<Rightarrow> string \<Rightarrow> string" where
  "extractTagContent lib doc tagName =
     TrimSpace (concat (map (\<lambda>s. nodeText s @ '' '') (Find lib doc tagName)))"

text \<open>
  The second half of \<^verbatim>\<open>extractHTMLValues\<close>:
  \<^verbatim>\<open>
  for _, column := range columns {
      if column.Tag != "" {
          tagContent := extractTagContent(doc, column.Tag)
          results[column.Column] = tagContent
      } else {
          for key, value := range keyValuePairs {
              if matchColumn(key, column) {
                  results[column.Column] = value
                  break
              }
          }
      }
  }
  \<close>
  The inner loop visits the harvested pairs in the order \<open>MapRange lib\<close>.
\<close>

definition columnResult ::
  "Lib \<Rightarrow> Node \<Rightarrow> (string \<times> string) list \<Rightarrow> (string \<times> string) list \<Rightarrow> Column
     \<Rightarrow> (string \<times> string) list" where
  "columnResult lib doc keyValuePairs results column =
     (if Tag column \<noteq> []
      then mapPut results (Column column) (extractTagContent lib doc (Tag column))
      else (case find (\<lambda>kv. matchColumn lib (fst kv) column) (MapRange lib keyValuePairs) of
              Some kv \<Rightarrow> mapPut results (Column column) (snd kv)
            | None \<Rightarrow> results))"

text \<open>
  What the extractor writes with \<^verbatim>\<open>log.Printf\<close>: the warning of the row builder with
  the error it reports, the map that \<^verbatim>\<open>extractHTMLValues\<close> returns, and the name and
  value of each column of a finished row.
\<close>

datatype log_entry =
    Warning error
  | DebugHTMLValues "(string \<times> string) list"
  | DebugColumn string string

definition extractHTMLValues ::
  "Lib \<Rightarrow> string \<Rightarrow> Column list \<Rightarrow> error + ((string \<times> string) list \<times> log_entry list)" where
  "extractHTMLValues lib content columns =
     (case Parse lib content of
        Inl err \<Rightarrow> Inl (HTMLParseError err)
      | Inr doc \<Rightarrow>
          (let results = foldl (columnResult lib doc (harvest lib doc)) [] columns
           in Inr (results, [DebugHTMLValues results])))"

section \<open>Line-oriented extraction\<close>

text \<open>
  \<^verbatim>\<open>utf8.Valid\<close> and \<^verbatim>\<open>utf8.ValidString\<close>: the bytes are well-formed UTF-8 (no
  overlong form, no surrogate, nothing above U+10FFFF).
\<close>

definition contByte :: "char \<Rightarrow> bool" where
  "contByte c = (CHR 0x80 \<le> c \<and> c \<le> CHR 0xBF)"

fun ValidUTF8 :: "string \<Rightarrow> bool" where
  "ValidUTF8 [] = True"
| "ValidUTF8 (c # cs) =
     (if c < CHR 0x80 then ValidUTF8 cs
      else if CHR 0xC2 \<le> c \<and> c \<le> CHR 0xDF then
        (case cs of c1 # r \<Rightarrow> contByte c1 \<and> ValidUTF8 r | _ \<Rightarrow> False)
      else if CHR 0xE0 \<le> c \<and> c \<le> CHR 0xEF then
        (case cs of
           c1 # c2 # r \<Rightarrow>
             (if c = CHR 0xE0 then CHR 0xA0 \<le> c1 \<and> c1 \<le> CHR 0xBF
              else if c = CHR 0xED then CHR 0x80 \<le> c1 \<and> c1 \<le> CHR 0x9F
              else contByte c1) \<and> contByte c2 \<and> ValidUTF8 r
         | _ \<Rightarrow> False)
      else if CHR 0xF0 \<le> c \<and> c \<le> CHR 0xF4 then
        (case cs of
           c1 # c2 # c3 # r \<Rightarrow>
             (if c = CHR 0xF0 then CHR 0x90 \<le> c1 \<and> c1 \<le> CHR 0xBF
              else if c = CHR 0xF4 then CHR 0x80 \<le> c1 \<and> c1 \<le> CHR 0x8F
              else contByte c1) \<and> contByte c2 \<and> contByte c3 \<and> ValidUTF8 r
         | _ \<Rightarrow> False)
      else False)"

text \<open>
  \<^verbatim>\<open>extractValue\<close> compiles \<^verbatim>\<open>regexp.QuoteMeta(key) + `(.+)`\<close>: the key as a literal,
  then one or more characters other than newline. The pattern is refused only when
  the key is not valid UTF-8 (a literal of millions of characters, which the compiler
  also refuses, is left aside). \<open>lineMatch key line\<close> is the group that
  \<^verbatim>\<open>re.FindStringSubmatch(line)\<close> captures for the leftmost match, if there is one.
\<close>

fun lineMatch :: "string \<Rightarrow> string \<Rightarrow> string option" where
  "lineMatch key [] = None"
| "lineMatch key (c # cs) =
     (if prefix key (c # cs) \<and>
         (case drop (length key) (c # cs) of [] \<Rightarrow> False | d # r \<Rightarrow> d \<noteq> CHR 0x0A)
      then Some (takeWhile (\<lambda>x. x \<noteq> CHR 0x0A) (drop (length key) (c # cs)))
      else lineMatch key cs)"

text \<open>
  \<^verbatim>\<open>
  for i, line := range lines {
      matches := re.FindStringSubmatch(line)
      if len(matches) > 1 {
          if extractToEnd {
              keywordIndex := strings.Index(line, key)
              if keywordIndex != -1 {
                  restOfLine := line[keywordIndex+len(key):]
                  extractedLines := append([]string{restOfLine}, lines[i+1:]...)
                  return strings.TrimSpace(strings.Join(extractedLines, "\r\n")), nil
              }
          } else {
              value := strings.TrimSpace(matches[1])
              brIndex := strings.Index(value, "<br")
              if brIndex != -1 { value = value[:brIndex] }
              if i+1 < len(lines) && strings.Contains(lines[i+1], ":") {
                  return strings.TrimSpace(value), nil
              }
              return strings.TrimSpace(value), nil
          }
      }
  }
  return "", nil
  \<close>
\<close>

fun extractLines :: "string \<Rightarrow> bool \<Rightarrow> string list \<Rightarrow> string" where
  "extractLines key extractToEnd [] = []"
| "extractLines key extractToEnd (line # lines) =
     (case lineMatch key line of
        None \<Rightarrow> extractLines key extractToEnd lines
      | Some m \<Rightarrow>
          if extractToEnd then
            (let keywordIndex = Index line key
             in if keywordIndex \<noteq> - 1
                then TrimSpace (Join (drop (nat keywordIndex + length key) line # lines)
                                  [CHR 0x0D, CHR 0x0A])
                else extractLines key extractToEnd lines)
          else
            (let value = TrimSpace m;
                 brIndex = Index value ''<br'';
                 value = (if brIndex \<noteq> - 1 then take (nat brIndex) value else value)
             in TrimSpace value))"

definition extractValue :: "string \<Rightarrow> string \<Rightarrow> bool \<Rightarrow> error + string" where
  "extractValue content key extractToEnd =
     (if \<not> ValidUTF8 key then Inl RegexCompileError
      else Inr (extractLines key extractToEnd (Split content [CHR 0x0D, CHR 0x0A])))"

section \<open>The row builder\<close>

text \<open>
  The source of one column, lines 1380 to 1395 of \<^verbatim>\<open>processJSONItem\<close>:
  \<^verbatim>\<open>
  if profile.ContentType == "html" && (column.Regex != "" || len(column.Keywords) > 0) {
      value = htmlValues[column.Column]
  } else if column.Regex != "" && profile.ParseBody != "" {
      value, err = extractValue(parseContent, column.Regex, column.ExtractToEnd)
      if err != nil { return nil, fmt.Errorf("value extraction: %v", err) }
  } else if column.Key != "" {
      value, err = getNestedValue(item, strings.Split(column.Key, "."))
      if err != nil { log.Printf("Warning: nested value: %v", err) }
  }
  \<close>
  The result is the value, or the error that ends \<^verbatim>\<open>processJSONItem\<close>, with what is
  logged.
\<close>

definition columnValue ::
  "Lib \<Rightarrow> (string \<times> json) list \<Rightarrow> Profile \<Rightarrow> string \<Rightarrow> (string \<times> string) list \<Rightarrow> Column
     \<Rightarrow> (error + string) \<times> log_entry list" where
  "columnValue lib item profile parseContent htmlValues column =
     (if ContentType profile = ''html'' \<and> (Regex column \<noteq> [] \<or> length (Keywords column) > 0)
      then (Inr (mapGet htmlValues (Column column)), [])
      else if Regex column \<noteq> [] \<and> ParseBody profile \<noteq> [] then
        (case extractValue parseContent (Regex column) (ExtractToEnd column) of
           Inl err \<Rightarrow> (Inl (ValueExtractError err), [])
         | Inr value \<Rightarrow> (Inr value, []))
      else if Key column \<noteq> [] then
        (case getNestedValue lib (JObject item) (Split (Key column) ''.'') of
           Inl err \<Rightarrow> (Inr [], [Warning err])
         | Inr value \<Rightarrow> (Inr value, []))
      else (Inr [], []))"

text \<open>
  The rest of the loop body:
  \<^verbatim>\<open>
  if column.CleanHTML { value = cleanHTMLContent(value) }
  row[i] = handleNewlines(value)
  row[i] = handleNullValue(row[i])
  \<close>
\<close>

definition finishValue :: "Lib \<Rightarrow> Globals \<Rightarrow> Column \<Rightarrow> string \<Rightarrow> string" where
  "finishValue lib g column value =
     handleNullValue (config g)
       (handleNewlines (config g)
          (if CleanHTML column then cleanHTMLContent lib (profileName g) value else value))"

fun processColumns ::
  "Lib \<Rightarrow> Globals \<Rightarrow> (string \<times> json) list \<Rightarrow> Profile \<Rightarrow> string \<Rightarrow> (string \<times> string) list
     \<Rightarrow> Column list \<Rightarrow> (error + string list) \<times> log_entry list" where
  "processColumns lib g item profile parseContent htmlValues [] = (Inr [], [])"
| "processColumns lib g item profile parseContent htmlValues (column # columns) =
     (case columnValue lib item profile parseContent htmlValues column of
        (Inl err, lg) \<Rightarrow> (Inl err, lg)
      | (Inr value, lg) \<Rightarrow>
          (case processColumns lib g item profile parseContent htmlValues columns of
             (Inl err, lg') \<Rightarrow> (Inl err, lg @ lg')
           | (Inr row, lg') \<Rightarrow> (Inr (finishValue lib g column value # row), lg @ lg')))"

text \<open>
  The head of \<^verbatim>\<open>processJSONItem\<close>:
  \<^verbatim>\<open>
  if profile.ParseBody != "" {
      content, err := getNestedValue(item, strings.Split(profile.ParseBody, "."))
      if err != nil { return nil, fmt.Errorf("HTML content: %v", err) }
      parseContent = content
      if profile.ContentType == "html" {
          htmlValues, err = extractHTMLValues(parseContent, profile.Columns)
          if err != nil { return nil, fmt.Errorf("HTML values: %v", err) }
      }
  }
  \<close>
\<close>

definition resolveBody ::
  "Lib \<Rightarrow> (string \<times> json) list \<Rightarrow> Profile
     \<Rightarrow> error + (string \<times> (string \<times> string) list \<times> log_entry list)" where
  "resolveBody lib item profile =
     (if ParseBody profile \<noteq> [] then
        (case getNestedValue lib (JObject item) (Split (ParseBody profile) ''.'') of
           Inl err \<Rightarrow> Inl (HTMLContentError err)
         | Inr content \<Rightarrow>
             if ContentType profile = ''html'' then
               (case extractHTMLValues lib content (Columns profile) of
                  Inl err \<Rightarrow> Inl (HTMLValuesError err)
                | Inr (htmlValues, lg) \<Rightarrow> Inr (content, htmlValues, lg))
             else Inr (content, [], []))
      else Inr ([], [], []))"

text \<open>
  \<^verbatim>\<open>processJSONItem\<close> returns the row, \<^verbatim>\<open>nil\<close> for a row that
  \<^verbatim>\<open>isEmptyOrAllNull\<close> (here \<open>None\<close>), or an error; the second component is what it
  has logged. After the loop it logs every column with its value.
\<close>

definition processJSONItem ::
  "Lib \<Rightarrow> Globals \<Rightarrow> (string \<times> json) list \<Rightarrow> Profile
     \<Rightarrow> (error + string list option) \<times> log_entry list" where
  "processJSONItem lib g item profile =
     (case resolveBody lib item profile of
        Inl err \<Rightarrow> (Inl err, [])
      | Inr (parseContent, htmlValues, lg0) \<Rightarrow>
          (case processColumns lib g item profile parseContent htmlValues (Columns profile) of
             (Inl err, lg) \<Rightarrow> (Inl err, lg0 @ lg)
           | (Inr row, lg) \<Rightarrow>
               (Inr (if isEmptyOrAllNull (config g) row then None else Some row),
                lg0 @ lg @ map (\<lambda>(column, v). DebugColumn (Column column) v)
                              (zip (Columns profile) row))))"

section \<open>Files\<close>

text \<open>
  \<^verbatim>\<open>decodeFileContent\<close> reads the file, returns the bytes when they are valid UTF-8,
  and otherwise reads the file again through the UTF-16 decoder.
\<close>

definition decodeFileContent :: "Lib \<Rightarrow> string \<Rightarrow> error + string" where
  "decodeFileContent lib filePath =
     (case ReadFile lib filePath of
        Inl err \<Rightarrow> Inl err
      | Inr content \<Rightarrow> if ValidUTF8 content then Inr content else DecodeUTF16 lib content)"

text \<open>
  \<^verbatim>\<open>
  var jsonData struct {
      Value []map[string]interface{} `json:"value"`
  }
  if err := json.Unmarshal(data, &jsonData); err != nil { ... }
  \<close>
  \<^verbatim>\<open>encoding/json\<close> fills the struct from the document: \<^verbatim>\<open>null\<close> leaves it
  untouched and anything but an object is a type error; in an object, every key equal
  to \<^verbatim>\<open>value\<close> up to the case of its letters is decoded into \<open>Value\<close>, in the order
  of the document, and the other keys are skipped. \<^verbatim>\<open>null\<close> gives a nil slice, an array
  gives its elements (an object as a map, \<^verbatim>\<open>null\<close> as a nil map), and any other value
  or element is a type error, which \<^verbatim>\<open>Unmarshal\<close> returns once the document is read.
  A nil slice is the empty list; a nil map is the empty list of entries.

  When another such key follows, its array is decoded into the slice that the field
  already holds: the element of index \<open>i\<close> is decoded into the map that stands at index
  \<open>i\<close> of the slice's array, whose entries stay unless the object has the same key, and
  into a new map when there is none; the slice ends with the length of the last array,
  and the maps beyond that length stay in the slice's array, where a later and longer
  array finds them. \<^verbatim>\<open>null\<close> and the empty array give a nil slice and a new empty
  slice, which hold no map. The state of the field is the pair of the slice and of the
  maps that its array holds beyond its length.
\<close>

record JsonData =
  Value :: "(string \<times> json) list list"

definition typeError :: error where
  "typeError = LibraryError ''json: cannot unmarshal value into Go value''"

fun decodeItem :: "(string \<times> json) list \<Rightarrow> json \<Rightarrow> error + (string \<times> json) list" where
  "decodeItem old (JObject m) = Inr (old @ m)"
| "decodeItem old JNull = Inr []"
| "decodeItem old _ = Inl typeError"

fun decodeItems ::
  "(string \<times> json) list list \<Rightarrow> json list \<Rightarrow> error + (string \<times> json) list list" where
  "decodeItems cur [] = Inr []"
| "decodeItems cur (x # xs) =
     (case decodeItem (case cur of [] \<Rightarrow> [] | old # r \<Rightarrow> old) x of
        Inl err \<Rightarrow> Inl err
      | Inr m \<Rightarrow>
          (case decodeItems (case cur of [] \<Rightarrow> [] | old # r \<Rightarrow> r) xs of
             Inl err \<Rightarrow> Inl err
           | Inr ms \<Rightarrow> Inr (m # ms)))"

type_synonym slice = "(string \<times> json) list list \<times> (string \<times> json) list list"

fun decodeValueField :: "slice \<Rightarrow> json \<Rightarrow> error + slice" where
  "decodeValueField (cur, spare) JNull = Inr ([], [])"
| "decodeValueField (cur, spare) (JArray []) = Inr ([], [])"
| "decodeValueField (cur, spare) (JArray (x # xs)) =
     (case decodeItems (cur @ spare) (x # xs) of
        Inl err \<Rightarrow> Inl err
      | Inr items \<Rightarrow> Inr (items, drop (length (x # xs)) (cur @ spare)))"
| "decodeValueField (cur, spare) _ = Inl typeError"

fun decodeFields :: "(string \<times> json) list \<Rightarrow> slice \<Rightarrow> error + slice" where
  "decodeFields [] st = Inr st"
| "decodeFields ((k, v) # kvs) st =
     (if map asciiLower k = ''value'' then
        (case decodeValueField st v of
           Inl err \<Rightarrow> Inl err
         | Inr st' \<Rightarrow> decodeFields kvs st')
      else decodeFields kvs st)"

fun decodeJsonData :: "json \<Rightarrow> error + JsonData" where
  "decodeJsonData JNull = Inr \<lparr>Value = []\<rparr>"
| "decodeJsonData (JObject kvs) =
     (case decodeFields kvs ([], []) of
        Inl err \<Rightarrow> Inl err
      | Inr (items, spare) \<Rightarrow> Inr \<lparr>Value = items\<rparr>)"
| "decodeJsonData _ = Inl typeError"

definition Unmarshal :: "Lib \<Rightarrow> string \<Rightarrow> error + JsonData" where
  "Unmarshal lib data =
     (case ParseJSON lib data of Inl err \<Rightarrow> Inl err | Inr doc \<Rightarrow> decodeJsonData doc)"

text \<open>
  \<^verbatim>\<open>
  var rows [][]string
  for _, item := range jsonData.Value {
      row, err := processJSONItem(item, profile)
      if err != nil { return nil, fmt.Errorf("item: %v", err) }
      if len(row) > 0 { rows = append(rows, row) }
  }
  return rows, nil
  \<close>
\<close>

fun processItems ::
  "Lib \<Rightarrow> Globals \<Rightarrow> Profile \<Rightarrow> (string \<times> json) list list
     \<Rightarrow> (error + string list list) \<times> log_entry list" where
  "processItems lib g profile [] = (Inr [], [])"
| "processItems lib g profile (item # items) =
     (case processJSONItem lib g item profile of
        (Inl err, lg) \<Rightarrow> (Inl (ItemError err), lg)
      | (Inr row, lg) \<Rightarrow>
          (case processItems lib g profile items of
             (Inl err, lg') \<Rightarrow> (Inl err, lg @ lg')
           | (Inr rows, lg') \<Rightarrow>
               (Inr ((case row of
                        None \<Rightarrow> []
                      | Some r \<Rightarrow> if length r > 0 then [r] else []) @ rows),
                lg @ lg')))"

definition processJSONFile ::
  "Lib \<Rightarrow> Globals \<Rightarrow> string \<Rightarrow> Profile \<Rightarrow> (error + string list list) \<times> log_entry list" where
  "processJSONFile lib g filePath profile =
     (case decodeFileContent lib filePath of
        Inl err \<Rightarrow> (Inl (FileReadError filePath err), [])
      | Inr data \<Rightarrow>
          (case Unmarshal lib data of
             Inl err \<Rightarrow> (Inl (JSONParseError filePath err), [])
           | Inr jsonData \<Rightarrow> processItems lib g profile (Value jsonData)))"

text \<open>
  One worker, taken alone, handles the files it draws one after the other:
  \<^verbatim>\<open>
  for filePath := range jobs {
      rows, err := processJSONFile(filePath, profile)
      if err != nil {
          errorChan <- fmt.Errorf("file %s: %v", filePath, err)
          continue
      }
      for _, row := range rows { results <- row }
  }
  \<close>
  The state is what it has sent to \<^verbatim>\<open>results\<close> and to \<^verbatim>\<open>errorChan\<close>, and the log.
\<close>

record Channels =
  results :: "string list list"
  errorChan :: "error list"
  logged :: "log_entry list"

definition workerStep :: "Lib \<Rightarrow> Globals \<Rightarrow> Profile \<Rightarrow> Channels \<Rightarrow> string \<Rightarrow> Channels" where
  "workerStep lib g profile ch filePath =
     (case processJSONFile lib g filePath profile of
        (Inl err, lg) \<Rightarrow>
          ch\<lparr>errorChan := errorChan ch @ [WorkerError filePath err], logged := logged ch @ lg\<rparr>
      | (Inr rows, lg) \<Rightarrow>
          ch\<lparr>results := results ch @ rows, logged := logged ch @ lg\<rparr>)"

definition worker :: "Lib \<Rightarrow> Globals \<Rightarrow> Profile \<Rightarrow> string list \<Rightarrow> Channels" where
  "worker lib g profile jobs =
     foldl (workerStep lib g profile) \<lparr>results = [], errorChan = [], logged = []\<rparr> jobs"

section \<open>Reference libraries for evaluation\<close>

text \<open>
  The theorems below hold for every value of the library parameters. To evaluate the
  extractor on concrete inputs, \<open>plainLib\<close> gives each library function on the plain
  inputs where its result is simple to state; the comments say on which inputs the
  function below is the library's, and the inputs evaluated in this theory lie there.
\<close>

text \<open>
  \<^verbatim>\<open>regexp.MatchString\<close> on the patterns made of \<^verbatim>\<open>^\<close>, \<^verbatim>\<open>$\<close>, an opening
  parenthesis, ASCII characters that are not operators, and a backslash followed by an
  ASCII character that is neither a letter nor a digit (which stands for that
  character). Without flags \<^verbatim>\<open>^\<close> holds at the start of the text only and \<^verbatim>\<open>$\<close> at
  its end only, and a match may begin anywhere. The compiler refuses such a pattern
  exactly when it ends in a lone backslash or opens a group, which nothing closes
  (\<open>RxError\<close>). A pattern with another operator or a non-ASCII byte is outside this
  fragment (\<open>RxUnsupported\<close>); \<open>plainMatchString\<close> answers \<open>None\<close> for it as well,
  which says nothing about Go.
\<close>

datatype rx_item = RxLit char | RxBegin | RxEnd

datatype rx_result = RxOk "rx_item list" | RxError | RxUnsupported

definition isAlnum :: "char \<Rightarrow> bool" where
  "isAlnum c = (isDigit c \<or> (CHR ''A'' \<le> c \<and> c \<le> CHR ''Z'') \<or> (CHR ''a'' \<le> c \<and> c \<le> CHR ''z''))"

definition rxCons :: "rx_item \<Rightarrow> rx_result \<Rightarrow> rx_result" where
  "rxCons item r = (case r of RxOk items \<Rightarrow> RxOk (item # items) | _ \<Rightarrow> r)"

definition rxOpen :: "rx_result \<Rightarrow> rx_result" where
  "rxOpen r = (case r of RxUnsupported \<Rightarrow> RxUnsupported | _ \<Rightarrow> RxError)"

definition rxOther :: "char \<Rightarrow> bool" where
  "rxOther c = (c \<in> set ''.*+?)[]{}|'' \<or> CHR 0x80 \<le> c)"

fun rxParse :: "string \<Rightarrow> rx_result" where
  "rxParse [] = RxOk []"
| "rxParse [c] =
     (if c = CHR 0x5C then RxError
      else if rxOther c then RxUnsupported
      else if c = CHR ''('' then RxError
      else if c = CHR ''^'' then RxOk [RxBegin]
      else if c = CHR ''$'' then RxOk [RxEnd]
      else RxOk [RxLit c])"
| "rxParse (c # d # cs) =
     (if c = CHR 0x5C then
        (if d < CHR 0x80 \<and> \<not> isAlnum d then rxCons (RxLit d) (rxParse cs) else RxUnsupported)
      else if rxOther c then RxUnsupported
      else if c = CHR ''('' then rxOpen (rxParse (d # cs))
      else if c = CHR ''^'' then rxCons RxBegin (rxParse (d # cs))
      else if c = CHR ''$'' then rxCons RxEnd (rxParse (d # cs))
      else rxCons (RxLit c) (rxParse (d # cs)))"

fun rxMatchHere :: "rx_item list \<Rightarrow> bool \<Rightarrow> string \<Rightarrow> bool" where
  "rxMatchHere [] atStart s = True"
| "rxMatchHere (RxBegin # items) atStart s = (atStart \<and> rxMatchHere items atStart s)"
| "rxMatchHere (RxEnd # items) atStart s = (s = [] \<and> rxMatchHere items atStart s)"
| "rxMatchHere (RxLit c # items) atStart [] = False"
| "rxMatchHere (RxLit c # items) atStart (d # ds) = (c = d \<and> rxMatchHere items False ds)"

fun rxSearch :: "rx_item list \<Rightarrow> bool \<Rightarrow> string \<Rightarrow> bool" where
  "rxSearch items atStart [] = rxMatchHere items atStart []"
| "rxSearch items atStart (d # ds) =
     (rxMatchHere items atStart (d # ds) \<or> rxSearch items False ds)"

definition plainMatchString :: "string \<Rightarrow> string \<Rightarrow> bool option" where
  "plainMatchString pattern s =
     (case rxParse pattern of
        RxOk items \<Rightarrow> Some (rxSearch items True s)
      | RxError \<Rightarrow> None
      | RxUnsupported \<Rightarrow> None)"

text \<open>
  \<^verbatim>\<open>html.Parse\<close> on a text without markup (no \<^verbatim>\<open><\<close>, no \<^verbatim>\<open>&\<close>, no NUL, no carriage
  return): the document holds \<^verbatim>\<open>html\<close> with an empty \<^verbatim>\<open>head\<close> and a \<^verbatim>\<open>body\<close>, and
  the body holds one text node with the input less its leading white space (space,
  tab, newline, form feed), or nothing when that is empty.
\<close>

definition htmlDocument :: "Node list \<Rightarrow> Node" where
  "htmlDocument body =
     Node DocumentNode []
       [Node ElementNode ''html'' [Node ElementNode ''head'' [], Node ElementNode ''body'' body]]"

definition plainParse :: "string \<Rightarrow> error + Node" where
  "plainParse s =
     (let t = dropWhile (\<lambda>c. c = CHR '' '' \<or> c = CHR 0x09 \<or> c = CHR 0x0A \<or> c = CHR 0x0C \<or> c = CHR 0x0D) s
      in Inr (htmlDocument (if t = [] then [] else [Node TextNode t []])))"

text \<open>
  \<^verbatim>\<open>%v\<close> of a \<^verbatim>\<open>float64\<close> that is a whole number from 0 to 999999, written with
  exponent 0: its decimal digits. Other numbers are outside the fragment.
\<close>

function showNat :: "nat \<Rightarrow> string" where
  "showNat n = (if n < 10 then [char_of (48 + n)] else showNat (n div 10) @ [char_of (48 + n mod 10)])"
  by pat_completeness auto
termination
  by (relation "measure id") auto

declare showNat.simps [simp del]

definition plainFormatFloat :: "float64 \<Rightarrow> string" where
  "plainFormatFloat f =
     (case f of Float64 m e \<Rightarrow> if e = 0 \<and> 0 \<le> m \<and> m < 1000000 then showNat (nat m) else [])"

text \<open>
  \<open>plainLib\<close>: \<^verbatim>\<open>strings.ToLower\<close> on ASCII text, \<^verbatim>\<open>html.UnescapeString\<close> on text
  without \<^verbatim>\<open>&\<close>, a map visited in the order of insertion (one of the orders Go may
  take), no file, and for \<open>Select\<close> the empty selection, which is what goquery gives for
  a selector that does not parse. \<open>withFile\<close> adds a file with its bytes and the document that
  \<^verbatim>\<open>encoding/json\<close> reads from them.
\<close>

definition plainLib :: Lib where
  "plainLib =
     \<lparr>MatchString = plainMatchString,
      ToLower = map asciiLower,
      Parse = plainParse,
      UnescapeString = (\<lambda>s. s),
      Select = (\<lambda>doc selector. []),
      FormatFloat = plainFormatFloat,
      MapRange = (\<lambda>m. m),
      ReadFile = (\<lambda>path. Inl (LibraryError ''open: no such file or directory'')),
      DecodeUTF16 = (\<lambda>data. Inl (LibraryError ''utf16: not decoded'')),
      ParseJSON = (\<lambda>data. Inl (LibraryError ''unexpected end of JSON input''))\<rparr>"

definition withFile :: "Lib \<Rightarrow> string \<Rightarrow> string \<Rightarrow> json \<Rightarrow> Lib" where
  "withFile lib path data doc =
     lib\<lparr>ReadFile := (ReadFile lib)(path := Inr data),
         ParseJSON := (ParseJSON lib)(data := Inr doc)\<rparr>"

text \<open>\<open>withParse\<close> gives the tree that the HTML parser builds for one more input.\<close>

definition withParse :: "Lib \<Rightarrow> string \<Rightarrow> Node \<Rightarrow> Lib" where
  "withParse lib content doc = lib\<lparr>Parse := (Parse lib)(content := Inr doc)\<rparr>"

section \<open>Sample inputs\<close>

text \<open>Configurations, columns and profiles on which the theorems are instantiated.\<close>

definition keepConfig :: "string \<Rightarrow> Config" where
  "keepConfig nullHandling =
     \<lparr>NewlineHandling = ''keep'', NewlineReplacement = [], NullValueHandling = nullHandling\<rparr>"

definition defaultGlobals :: "string \<Rightarrow> Globals" where
  "defaultGlobals nullHandling = \<lparr>config = keepConfig nullHandling, profileName = ''default''\<rparr>"

text \<open>A column that reads a JSON path, and a column matched against HTML labels.\<close>

definition jsonColumn :: "string \<Rightarrow> string \<Rightarrow> Column" where
  "jsonColumn name key =
     \<lparr>Key = key, Column = name, Regex = [], Keywords = [], ExactMatch = False,
      ExtractToEnd = False, Format = [], CleanHTML = False, Tag = []\<rparr>"

definition labelColumn :: "string \<Rightarrow> string \<Rightarrow> string list \<Rightarrow> Column" where
  "labelColumn name regex keywords =
     \<lparr>Key = [], Column = name, Regex = regex, Keywords = keywords, ExactMatch = False,
      ExtractToEnd = False, Format = [], CleanHTML = False, Tag = []\<rparr>"

definition tagColumn :: "string \<Rightarrow> string \<Rightarrow> Column" where
  "tagColumn name tag =
     \<lparr>Key = [], Column = name, Regex = [], Keywords = [], ExactMatch = False,
      ExtractToEnd = False, Format = [], CleanHTML = False, Tag = tag\<rparr>"

definition jsonProfile :: "Column list \<Rightarrow> Profile" where
  "jsonProfile columns =
     \<lparr>Columns = columns, OutputFile = ''out.csv'', ParseBody = [], ContentType = []\<rparr>"

definition htmlProfile :: "Column list \<Rightarrow> Profile" where
  "htmlProfile columns =
     \<lparr>Columns = columns, OutputFile = ''out.csv'', ParseBody = ''body'', ContentType = ''html''\<rparr>"

section \<open>The null policy\<close>

lemma getNestedValue_null: "getNestedValue lib JNull keys = Inr ''<nil>''"
  by (cases keys) simp_all

text \<open>
  Claim C3. \<^verbatim>\<open>handleNullValue\<close> returns the configured sentinel for the empty string
  and for \<^verbatim>\<open><nil>\<close>: \<^verbatim>\<open>null\<close> when \<open>null_value_handling\<close> is \<^verbatim>\<open>null\<close>, \<^verbatim>\<open>nil\<close> when
  it is \<^verbatim>\<open>nil\<close>, the empty string when it is \<^verbatim>\<open>empty\<close>; every other value is returned
  unchanged. \<^verbatim>\<open><nil>\<close> is what the resolver returns for a key that holds JSON null,
  whatever path segments follow. (The row builder applies the policy to the value
  that \<^verbatim>\<open>handleNewlines\<close> returns.)
\<close>

theorem handleNullValue_policy:
  "(NullValueHandling cfg = ''null'' \<longrightarrow>
      handleNullValue cfg [] = ''null'' \<and> handleNullValue cfg ''<nil>'' = ''null'')
   \<and> (NullValueHandling cfg = ''nil'' \<longrightarrow>
      handleNullValue cfg [] = ''nil'' \<and> handleNullValue cfg ''<nil>'' = ''nil'')
   \<and> (NullValueHandling cfg = ''empty'' \<longrightarrow>
      handleNullValue cfg [] = [] \<and> handleNullValue cfg ''<nil>'' = [])
   \<and> (v \<noteq> [] \<and> v \<noteq> ''<nil>'' \<longrightarrow> handleNullValue cfg v = v)
   \<and> (mapLookup item key = Some JNull \<longrightarrow>
      getNestedValue lib (JObject item) (key # keys) = Inr ''<nil>'')"
  by (simp add: handleNullValue_def getNestedValue_null)

theorem handleNullValue_policy_witness:
  "handleNullValue (keepConfig ''null'') [] = ''null''
   \<and> handleNullValue (keepConfig ''null'') ''<nil>'' = ''null''
   \<and> handleNullValue (keepConfig ''nil'') [] = ''nil''
   \<and> handleNullValue (keepConfig ''nil'') ''<nil>'' = ''nil''
   \<and> handleNullValue (keepConfig ''empty'') [] = []
   \<and> handleNullValue (keepConfig ''empty'') ''<nil>'' = []
   \<and> handleNullValue (keepConfig ''null'') ''Alice'' = ''Alice''
   \<and> getNestedValue plainLib (JObject [(''note'', JNull)]) [''note''] = Inr ''<nil>''"
  using
    handleNullValue_policy [of "keepConfig ''null''" "''Alice''" "[(''note'', JNull)]" "''note''"
      plainLib "[]"]
    handleNullValue_policy [of "keepConfig ''nil''" "''Alice''" "[(''note'', JNull)]" "''note''"
      plainLib "[]"]
    handleNullValue_policy [of "keepConfig ''empty''" "''Alice''" "[(''note'', JNull)]" "''note''"
      plainLib "[]"]
  by (simp add: keepConfig_def mapLookup_def)

section \<open>The column matcher: regex and keywords\<close>

lemma keywordMatch_iff:
  "keywordMatch lib key kws =
     (\<exists>keyword\<in>set kws. Contains (ToLower lib key) (ToLower lib keyword))"
  by (induction kws) auto

text \<open>
  Claim C1, as stated, fails: for a column with \<open>exact_match\<close> false and a non-empty
  regex the matcher would match a label exactly when the label matches the anchored
  pattern, without looking at the keywords. The column with regex \<^verbatim>\<open>Name\<close> and keyword
  \<^verbatim>\<open>role\<close> matches the label \<^verbatim>\<open>Job role\<close>, which the pattern \<^verbatim>\<open>^Name$\<close> does not
  match: after a failed regex \<^verbatim>\<open>matchColumn\<close> goes on to the keyword loop.
\<close>

theorem matchColumn_regex_only_counterexample:
  "\<not> ExactMatch (labelColumn ''Name'' ''Name'' [''role''])
   \<and> Regex (labelColumn ''Name'' ''Name'' [''role'']) \<noteq> []
   \<and> MatchString plainLib (''^'' @ Regex (labelColumn ''Name'' ''Name'' [''role'']) @ ''$'') ''Job role''
       = Some False
   \<and> matchColumn plainLib ''Job role'' (labelColumn ''Name'' ''Name'' [''role''])"
  by (simp add: labelColumn_def plainLib_def plainMatchString_def rxCons_def rxOther_def
      asciiLower_def matchColumn_def regexMatch_def anchored_def)

text \<open>
  Claim C1, amended. For every label and every column with \<open>exact_match\<close> false and a
  non-empty regex, the matcher matches the label if and only if the label matches the
  anchored pattern \<^verbatim>\<open>^regex$\<close> or some keyword of the column is a case-insensitive
  substring of the label: the keywords are consulted whenever the regex does not
  match.
\<close>

theorem matchColumn_regex_or_keywords:
  "\<not> ExactMatch column \<Longrightarrow> Regex column \<noteq> [] \<Longrightarrow>
   matchColumn lib key column =
     (MatchString lib (''^'' @ Regex column @ ''$'') key = Some True
      \<or> (\<exists>keyword\<in>set (Keywords column). Contains (ToLower lib key) (ToLower lib keyword)))"
  by (auto simp: matchColumn_def regexMatch_def anchored_def keywordMatch_iff split: option.splits)

theorem matchColumn_regex_or_keywords_witness:
  "matchColumn plainLib ''Name'' (labelColumn ''Name'' ''Name'' [''role''])
   \<and> matchColumn plainLib ''Job role'' (labelColumn ''Name'' ''Name'' [''role''])
   \<and> \<not> matchColumn plainLib ''Surname'' (labelColumn ''Name'' ''Name'' [''role''])"
  using
    matchColumn_regex_or_keywords [of "labelColumn ''Name'' ''Name'' [''role'']" plainLib "''Name''"]
    matchColumn_regex_or_keywords [of "labelColumn ''Name'' ''Name'' [''role'']" plainLib
      "''Job role''"]
    matchColumn_regex_or_keywords [of "labelColumn ''Name'' ''Name'' [''role'']" plainLib
      "''Surname''"]
  by (simp add: labelColumn_def plainLib_def plainMatchString_def rxCons_def rxOther_def
      asciiLower_def)

text \<open>
  Claim C9, as stated, fails: whenever the \<open>regex\<close> field of a column (with
  \<open>exact_match\<close> false) does not compile, the matcher would treat it as a non-match and
  return what the keyword test returns. The matcher compiles \<^verbatim>\<open>"^" + regex + "$"\<close>, not
  the field. The field that is one backslash does not compile (it ends in a lone
  backslash), but anchored it is the pattern of a literal dollar sign at the start of
  the text, so the column matches the label \<^verbatim>\<open>$\<close> with no keyword at all.
\<close>

theorem matchColumn_backslash_counterexample:
  "\<not> ExactMatch (labelColumn ''Price'' [CHR 0x5C] [])
   \<and> MatchString plainLib (Regex (labelColumn ''Price'' [CHR 0x5C] [])) ''$'' = None
   \<and> Keywords (labelColumn ''Price'' [CHR 0x5C] []) = []
   \<and> matchColumn plainLib ''$'' (labelColumn ''Price'' [CHR 0x5C] [])"
  by (simp add: labelColumn_def plainLib_def plainMatchString_def rxCons_def rxOther_def
      isAlnum_def isDigit_def matchColumn_def regexMatch_def anchored_def)

text \<open>
  Claim C9, amended. For every label and every column with \<open>exact_match\<close> false, when
  the anchored pattern \<^verbatim>\<open>^regex$\<close> that the matcher compiles is refused by the regex
  compiler, the matcher returns no error: the failed regex counts as a non-match and
  the result is that of the case-insensitive keyword substring test.
  (\<^verbatim>\<open>matchColumn\<close> returns a boolean on every input: it has no error result.)
\<close>

theorem matchColumn_compile_error:
  "\<not> ExactMatch column \<Longrightarrow> MatchString lib (''^'' @ Regex column @ ''$'') key = None \<Longrightarrow>
   matchColumn lib key column =
     (\<exists>keyword\<in>set (Keywords column). Contains (ToLower lib key) (ToLower lib keyword))"
  by (auto simp: matchColumn_def regexMatch_def anchored_def keywordMatch_iff)

theorem matchColumn_compile_error_witness:
  "MatchString plainLib (''^'' @ Regex (labelColumn ''Name'' ''(Name'' [''name'']) @ ''$'') ''Full name''
     = None
   \<and> matchColumn plainLib ''Full name'' (labelColumn ''Name'' ''(Name'' [''name''])
   \<and> \<not> matchColumn plainLib ''Role'' (labelColumn ''Name'' ''(Name'' [''name''])"
  using
    matchColumn_compile_error [of "labelColumn ''Name'' ''(Name'' [''name'']" plainLib "''Full name''"]
    matchColumn_compile_error [of "labelColumn ''Name'' ''(Name'' [''name'']" plainLib "''Role''"]
  by (simp add: labelColumn_def plainLib_def plainMatchString_def rxCons_def rxOpen_def rxOther_def
      asciiLower_def)

section \<open>Columns that name a tag\<close>

text \<open>
  The body \<^verbatim>\<open><p><strong>Name:</strong> Alice</p><h1>Report</h1>\<close> and the tree that the
  HTML parser builds for it.
\<close>

definition reportBody :: string where
  "reportBody = ''<p><strong>Name:</strong> Alice</p><h1>Report</h1>''"

definition reportTree :: Node where
  "reportTree =
     htmlDocument
       [Node ElementNode ''p''
          [Node ElementNode ''strong'' [Node TextNode ''Name:'' []], Node TextNode '' Alice'' []],
        Node ElementNode ''h1'' [Node TextNode ''Report'' []]]"

definition reportLib :: Lib where
  "reportLib = withParse plainLib reportBody reportTree"

text \<open>
  Claim C2 says that under an \<open>html\<close> profile with a \<open>parse_body\<close> every column that has
  a regex, keywords or a tag takes its value from the map that \<^verbatim>\<open>extractHTMLValues\<close>
  builds. The code does so for a column with a regex or keywords, and not for a column
  that has only a tag: \<^verbatim>\<open>extractHTMLValues\<close> stores the text of the \<^verbatim>\<open>h1\<close> element
  under the column \<^verbatim>\<open>Title\<close>, but the test in \<^verbatim>\<open>processJSONItem\<close> looks at \<open>Regex\<close> and
  \<open>Keywords\<close> only, so the column never reads the map and its field is empty.
\<close>

theorem tag_column_not_read:
  "extractHTMLValues reportLib reportBody [labelColumn ''Name'' ''Name'' [], tagColumn ''Title'' ''h1'']
     = Inr ([(''Name'', ''Alice''), (''Title'', ''Report'')],
            [DebugHTMLValues [(''Name'', ''Alice''), (''Title'', ''Report'')]])
   \<and> fst (processJSONItem reportLib (defaultGlobals ''empty'') [(''body'', JString reportBody)]
            (htmlProfile [labelColumn ''Name'' ''Name'' [], tagColumn ''Title'' ''h1'']))
     = Inr (Some [''Alice'', []])"
  by code_simp

section \<open>Files without records\<close>

lemma decodeFields_skip:
  "\<forall>k\<in>set (map fst kvs). map asciiLower k \<noteq> ''value'' \<Longrightarrow> decodeFields kvs st = Inr st"
  by (induction kvs st rule: decodeFields.induct) auto

text \<open>The file \<^verbatim>\<open>{"Value":[{"id":"X1"}]}\<close> and its document.\<close>

definition capitalValueText :: string where
  \<open>capitalValueText = ''{"Value":[{"id":"X1"}]}''\<close>

definition capitalValueDoc :: json where
  "capitalValueDoc = JObject [(''Value'', JArray [JObject [(''id'', JString ''X1'')]])]"

text \<open>
  Claim C10, as stated, fails: a file whose content is a JSON object without a
  \<^verbatim>\<open>"value"\<close> key would give no row. \<^verbatim>\<open>encoding/json\<close> matches the keys of the object
  with the field name without regard to the case of letters, so the records under the
  key \<^verbatim>\<open>"Value"\<close> are read, and the file gives the row of its record.
\<close>

theorem processJSONFile_capital_Value_counterexample:
  "ParseJSON (withFile plainLib ''a.json'' capitalValueText capitalValueDoc) capitalValueText
     = Inr (JObject [(''Value'', JArray [JObject [(''id'', JString ''X1'')]])])
   \<and> ''value'' \<notin> set (map fst [(''Value'', JArray [JObject [(''id'', JString ''X1'')]])])
   \<and> fst (processJSONFile (withFile plainLib ''a.json'' capitalValueText capitalValueDoc)
        (defaultGlobals ''empty'') ''a.json'' (jsonProfile [jsonColumn ''ID'' ''id''])) = Inr [[''X1'']]"
  by code_simp

text \<open>
  Claim C10, amended. For every input file whose content parses as a JSON object none
  of whose keys is \<^verbatim>\<open>value\<close> up to the case of its letters, \<^verbatim>\<open>processJSONFile\<close> returns
  no row and no error, and the worker sends nothing to the results and nothing to the
  error channel for it; the decoded records are those of an object whose \<^verbatim>\<open>value\<close> is
  the empty array.
\<close>

theorem processJSONFile_without_value:
  "decodeFileContent lib filePath = Inr data \<Longrightarrow>
   ParseJSON lib data = Inr (JObject kvs) \<Longrightarrow>
   \<forall>k\<in>set (map fst kvs). map asciiLower k \<noteq> ''value'' \<Longrightarrow>
   processJSONFile lib g filePath profile = (Inr [], [])
   \<and> workerStep lib g profile ch filePath = ch
   \<and> decodeJsonData (JObject kvs) = decodeJsonData (JObject [(''value'', JArray [])])"
  by (simp add: processJSONFile_def Unmarshal_def decodeFields_skip workerStep_def)

theorem processJSONFile_without_value_witness:
  \<open>processJSONFile
      (withFile plainLib ''a.json'' ''{"count":0}'' (JObject [(''count'', JNumber (Float64 0 0))]))
      (defaultGlobals ''empty'') ''a.json'' (jsonProfile [jsonColumn ''ID'' ''id'']) = (Inr [], [])
   \<and> errorChan (workerStep
      (withFile plainLib ''a.json'' ''{"count":0}'' (JObject [(''count'', JNumber (Float64 0 0))]))
      (defaultGlobals ''empty'') (jsonProfile [jsonColumn ''ID'' ''id''])
      \<lparr>results = [], errorChan = [], logged = []\<rparr> ''a.json'') = []\<close>
  using processJSONFile_without_value [of
      \<open>withFile plainLib ''a.json'' ''{"count":0}'' (JObject [(''count'', JNumber (Float64 0 0))])\<close>
      "''a.json''" \<open>''{"count":0}''\<close> "[(''count'', JNumber (Float64 0 0))]"
      "defaultGlobals ''empty''" "jsonProfile [jsonColumn ''ID'' ''id'']"
      "\<lparr>results = [], errorChan = [], logged = []\<rparr>"]
  by (simp add: withFile_def plainLib_def decodeFileContent_def asciiLower_def)

section \<open>The resolver, step by step\<close>

text \<open>
  The form \<^verbatim>\<open>[n]\<close> of a path segment as the specification writes it: an opening
  bracket, one or more decimal digits, a closing bracket, and nothing else.
\<close>

definition isIndexSegment :: "string \<Rightarrow> bool" where
  "isIndexSegment seg =
     (case seg of
        [] \<Rightarrow> False
      | c # r \<Rightarrow> c = CHR ''['' \<and> r \<noteq> [] \<and> last r = CHR '']'' \<and> butlast r \<noteq> []
                 \<and> list_all isDigit (butlast r))"

text \<open>
  What the scan \<^verbatim>\<open>fmt.Sscanf(key, "[%d]", &index)\<close> accepts, exactly: the number
  scanner takes an optional sign and then the longest run of digits and underscores,
  and \<^verbatim>\<open>strconv.ParseInt\<close> in base 10 refuses underscores and values that do not fit
  64 bits.
\<close>

lemma spaceWidth_digit: "isDigit a \<Longrightarrow> spaceWidth (a # s) = 0"
proof -
  assume d: "isDigit a"
  then have a: "\<not> asciiSpace a" "a \<noteq> CHR 0xC2" "\<And>b c. \<not> spaceTail3 a b c"
    by (auto simp: isDigit_def asciiSpace_def spaceTail3_def less_eq_char_def)
  show ?thesis
  proof (cases s)
    case Nil
    with a show ?thesis by simp
  next
    case (Cons b t)
    with a show ?thesis by (cases t) simp_all
  qed
qed

lemma digit_not_sign:
  "isDigit x \<or> x = CHR ''_'' \<Longrightarrow> x \<noteq> CHR ''+'' \<and> x \<noteq> CHR ''-'' \<and> x \<noteq> CHR '']''"
  by (auto simp: isDigit_def less_eq_char_def)

lemma ParseInt_signed:
  assumes "sign = [] \<or> sign = ''+'' \<or> sign = ''-''" and "ds \<noteq> []"
    and "isDigit (hd ds) \<or> hd ds = CHR ''_''"
  shows "ParseInt (sign @ ds) =
     (if \<not> list_all isDigit ds then None
      else if sign = ''-'' then
        (if decimalValue ds \<le> 2 ^ 63 then Some (- decimalValue ds) else None)
      else (if decimalValue ds < 2 ^ 63 then Some (decimalValue ds) else None))"
proof -
  from assms(2) obtain d t where ds: "ds = d # t" by (cases ds) auto
  with assms(3) have "d \<noteq> CHR ''+''" "d \<noteq> CHR ''-''"
    using digit_not_sign [of d] by auto
  with assms(1) ds show ?thesis
    by (auto simp: ParseInt_def)
qed

lemma scanInt_iff:
  "scanInt r = Some (n, r2) \<longleftrightarrow>
     (\<exists>sign ds. r = sign @ ds @ r2 \<and> (sign = [] \<or> sign = ''+'' \<or> sign = ''-'')
        \<and> ds \<noteq> [] \<and> list_all isDigit ds
        \<and> (r2 = [] \<or> \<not> (isDigit (hd r2) \<or> hd r2 = CHR ''_''))
        \<and> (if sign = ''-'' then decimalValue ds \<le> 2 ^ 63 \<and> n = - decimalValue ds
            else decimalValue ds < 2 ^ 63 \<and> n = decimalValue ds))"
  (is "?L \<longleftrightarrow> ?R")
proof
  let ?P = "\<lambda>x. isDigit x \<or> x = CHR ''_''"
  assume l: ?L
  then obtain d ds0 where r: "r = d # ds0" by (cases r) (auto simp: scanInt_def)
  define sign where "sign = (if d = CHR ''+'' \<or> d = CHR ''-'' then [d] else [])"
  define r' where "r' = (if d = CHR ''+'' \<or> d = CHR ''-'' then ds0 else d # ds0)"
  define tok where "tok = takeWhile ?P r'"
  have split: "r = sign @ r'" by (simp add: r sign_def r'_def)
  have sg: "sign = [] \<or> sign = ''+'' \<or> sign = ''-''" by (auto simp: sign_def)
  from l have tk: "tok \<noteq> []" and pi: "ParseInt (sign @ tok) = Some n"
    and r2: "r2 = dropWhile ?P r'"
    unfolding scanInt_def r sign_def r'_def tok_def
    by (auto simp: Let_def split: if_splits option.splits)
  have hd: "?P (hd tok)"
    using tk hd_in_set [OF tk] set_takeWhileD [of "hd tok" ?P r'] by (simp add: tok_def)
  from pi ParseInt_signed [OF sg tk hd]
  have all: "list_all isDigit tok"
    and num: "if sign = ''-'' then decimalValue tok \<le> 2 ^ 63 \<and> n = - decimalValue tok
              else decimalValue tok < 2 ^ 63 \<and> n = decimalValue tok"
    by (auto split: if_splits)
  have "r' = tok @ r2" by (simp add: tok_def r2)
  with split have "r = sign @ tok @ r2" by simp
  moreover have "r2 = [] \<or> \<not> ?P (hd r2)"
    using hd_dropWhile [of ?P r'] by (auto simp: r2)
  ultimately show ?R using sg tk all num by blast
next
  let ?P = "\<lambda>x. isDigit x \<or> x = CHR ''_''"
  assume ?R
  then obtain sign ds where r: "r = sign @ ds @ r2"
    and sg: "sign = [] \<or> sign = ''+'' \<or> sign = ''-''"
    and ne: "ds \<noteq> []" and all: "list_all isDigit ds"
    and stop: "r2 = [] \<or> \<not> ?P (hd r2)"
    and num: "if sign = ''-'' then decimalValue ds \<le> 2 ^ 63 \<and> n = - decimalValue ds
              else decimalValue ds < 2 ^ 63 \<and> n = decimalValue ds"
    by blast
  from all have allP: "\<forall>x\<in>set ds. ?P x" by (auto simp: list_all_iff)
  have tw: "takeWhile ?P (ds @ r2) = ds"
  proof (cases r2)
    case Nil
    with allP show ?thesis by simp
  next
    case (Cons e t)
    with stop have "\<not> ?P e" by simp
    with allP Cons show ?thesis by (simp add: takeWhile_append2 del: takeWhile_append)
  qed
  have dw: "dropWhile ?P (ds @ r2) = r2"
  proof (cases r2)
    case Nil
    with allP show ?thesis by simp
  next
    case (Cons e t)
    with stop have "\<not> ?P e" by simp
    with allP Cons show ?thesis by (simp add: dropWhile_append2 del: dropWhile_append)
  qed
  from ne obtain d t where ds: "ds = d # t" by (cases ds) auto
  with allP have hd: "?P (hd ds)" by simp
  then have dns: "d \<noteq> CHR ''+''" "d \<noteq> CHR ''-''"
    using digit_not_sign [of d] ds by auto
  have pi: "ParseInt (sign @ ds) = Some n"
    using ParseInt_signed [OF sg ne hd] all num by (auto split: if_splits)
  from sg show ?L
  proof (elim disjE)
    assume "sign = []"
    with r ds dns tw dw pi ne show ?L
      by (simp add: scanInt_def)
  next
    assume "sign = ''+''"
    with r tw dw pi ne show ?L
      by (simp add: scanInt_def)
  next
    assume "sign = ''-''"
    with r tw dw pi ne show ?L
      by (simp add: scanInt_def)
  qed
qed

lemma Sscanf_index_iff:
  "Sscanf_index key = Some n \<longleftrightarrow>
     (\<exists>rest sign ds tail. key = CHR ''['' # rest
        \<and> SkipSpace rest = Some (sign @ ds @ CHR '']'' # tail)
        \<and> (sign = [] \<or> sign = ''+'' \<or> sign = ''-'')
        \<and> ds \<noteq> [] \<and> list_all isDigit ds
        \<and> (if sign = ''-'' then decimalValue ds \<le> 2 ^ 63 \<and> n = - decimalValue ds
            else decimalValue ds < 2 ^ 63 \<and> n = decimalValue ds))"
  (is "?L \<longleftrightarrow> ?R")
proof
  assume l: ?L
  then obtain c rest where key0: "key = c # rest" by (cases key) (simp_all add: Sscanf_index_def)
  with l have c: "c = CHR ''[''" by (cases "c = CHR ''[''") (simp_all add: Sscanf_index_def)
  from l key0 c obtain r where sk: "SkipSpace rest = Some r"
    by (cases "SkipSpace rest") (simp_all add: Sscanf_index_def)
  from l key0 c sk obtain m r' where si: "scanInt r = Some (m, r')"
    by (cases "scanInt r") (auto simp: Sscanf_index_def)
  from l key0 c sk si obtain e tail where r': "r' = e # tail"
    by (cases r') (simp_all add: Sscanf_index_def)
  from l key0 c sk si r' have e: "e = CHR '']''" and m: "m = n"
    by (cases "e = CHR '']''"; simp add: Sscanf_index_def)+
  from si r' e m have "scanInt r = Some (n, CHR '']'' # tail)" by simp
  then obtain sign ds where "r = sign @ ds @ CHR '']'' # tail"
    "sign = [] \<or> sign = ''+'' \<or> sign = ''-''" "ds \<noteq> []" "list_all isDigit ds"
    "if sign = ''-'' then decimalValue ds \<le> 2 ^ 63 \<and> n = - decimalValue ds
     else decimalValue ds < 2 ^ 63 \<and> n = decimalValue ds"
    unfolding scanInt_iff by blast
  with key0 c sk show ?R by blast
next
  assume ?R
  then obtain rest sign ds tail where key: "key = CHR ''['' # rest"
    and sk: "SkipSpace rest = Some (sign @ ds @ CHR '']'' # tail)"
    and rest: "sign = [] \<or> sign = ''+'' \<or> sign = ''-''" "ds \<noteq> []" "list_all isDigit ds"
      "if sign = ''-'' then decimalValue ds \<le> 2 ^ 63 \<and> n = - decimalValue ds
       else decimalValue ds < 2 ^ 63 \<and> n = decimalValue ds"
    by blast
  have "\<not> (isDigit (CHR '']'') \<or> CHR '']'' = CHR ''_'')"
    by (simp add: isDigit_def less_eq_char_def)
  with rest have "\<exists>sign' ds'. sign @ ds @ CHR '']'' # tail = sign' @ ds' @ CHR '']'' # tail
        \<and> (sign' = [] \<or> sign' = ''+'' \<or> sign' = ''-'')
        \<and> ds' \<noteq> [] \<and> list_all isDigit ds'
        \<and> (CHR '']'' # tail = [] \<or> \<not> (isDigit (hd (CHR '']'' # tail)) \<or> hd (CHR '']'' # tail) = CHR ''_''))
        \<and> (if sign' = ''-'' then decimalValue ds' \<le> 2 ^ 63 \<and> n = - decimalValue ds'
            else decimalValue ds' < 2 ^ 63 \<and> n = decimalValue ds')"
    by (intro exI [of _ sign] exI [of _ ds]) simp
  then have "scanInt (sign @ ds @ CHR '']'' # tail) = Some (n, CHR '']'' # tail)"
    by (simp only: scanInt_iff)
  with key sk show ?L by (simp add: Sscanf_index_def)
qed

lemma spaceWidth_ascii: "asciiSpace c \<Longrightarrow> spaceWidth (c # s) = 1"
proof (cases s)
  case Nil
  assume "asciiSpace c"
  with Nil show ?thesis by simp
next
  case (Cons b t)
  assume "asciiSpace c"
  with Cons show ?thesis by (cases t) simp_all
qed

lemma SkipSpace_stop: "spaceWidth s = 0 \<Longrightarrow> SkipSpace s = Some s"
proof (cases s)
  case Nil
  then show ?thesis by simp
next
  case (Cons c cs)
  assume z: "spaceWidth s = 0"
  have "\<not> asciiSpace c" using z spaceWidth_ascii [of c cs] Cons by auto
  then have "c \<noteq> CHR 0x0D" "c \<noteq> CHR 0x0A" by (auto simp: asciiSpace_def)
  with z Cons show ?thesis by simp
qed

lemma SkipSpace_newline: "SkipSpace (CHR 0x0A # s) = None"
  by simp

lemma SkipSpace_skip:
  "c \<noteq> CHR 0x0A \<Longrightarrow> spaceWidth (c # s) \<noteq> 0 \<Longrightarrow>
   SkipSpace (c # s) = SkipSpace (drop (spaceWidth (c # s)) (c # s))"
proof -
  assume a: "c \<noteq> CHR 0x0A" "spaceWidth (c # s) \<noteq> 0"
  have cr: "spaceWidth (CHR 0x0D # s) = 1"
    by (rule spaceWidth_ascii) (simp add: asciiSpace_def)
  show ?thesis
  proof (cases "c = CHR 0x0D \<and> prefix [CHR 0x0A] s")
    case True
    with cr show ?thesis by simp
  next
    case False
    with a show ?thesis by auto
  qed
qed

lemma Sscanf_index_plain:
  assumes "ds \<noteq> []" and "list_all isDigit ds"
  shows "Sscanf_index (''['' @ ds @ '']'' @ tail) =
     (if decimalValue ds < 2 ^ 63 then Some (decimalValue ds) else None)"
proof -
  from assms obtain d t where ds: "ds = d # t" and d: "isDigit d" by (cases ds) auto
  have sk: "SkipSpace (ds @ CHR '']'' # tail) = Some (ds @ CHR '']'' # tail)"
    unfolding ds using spaceWidth_digit [OF d] by (intro SkipSpace_stop) simp
  have nb: "\<not> (isDigit (CHR '']'') \<or> CHR '']'' = CHR ''_'')"
    by (simp add: isDigit_def less_eq_char_def)
  have hd: "isDigit (hd ds) \<or> hd ds = CHR ''_''" using ds d by simp
  from d have dns: "d \<noteq> CHR ''+''" "d \<noteq> CHR ''-''" using digit_not_sign [of d] by auto
  have allP: "\<forall>x\<in>set ds. isDigit x \<or> x = CHR ''_''" using assms(2) by (auto simp: list_all_iff)
  have tw: "takeWhile (\<lambda>x. isDigit x \<or> x = CHR ''_'') (ds @ CHR '']'' # tail) = ds"
    using allP nb by (simp add: takeWhile_append2 del: takeWhile_append)
  have dw: "dropWhile (\<lambda>x. isDigit x \<or> x = CHR ''_'') (ds @ CHR '']'' # tail) = CHR '']'' # tail"
    using allP nb by (simp add: dropWhile_append2 del: dropWhile_append)
  have pi: "ParseInt ds = (if decimalValue ds < 2 ^ 63 then Some (decimalValue ds) else None)"
    using ParseInt_signed [of "[]" ds] assms hd by simp
  have "scanInt (ds @ CHR '']'' # tail) =
      (if decimalValue ds < 2 ^ 63 then Some (decimalValue ds, CHR '']'' # tail) else None)"
    using tw dw pi dns assms(1) unfolding ds by (simp add: scanInt_def)
  with sk show ?thesis by (simp add: Sscanf_index_def)
qed

text \<open>
  Claim C5, as stated, fails: on an array the segment would have to be of the form
  \<^verbatim>\<open>[n]\<close>, and a malformed segment would fail with a parse error. The resolver reads
  the segment with \<^verbatim>\<open>fmt.Sscanf(key, "[%d]", &index)\<close>, which stops reading at the
  closing bracket, skips white space before the number and accepts a sign: the segments
  \<^verbatim>\<open>[1]x\<close>, \<^verbatim>\<open>[ 1]\<close> and \<^verbatim>\<open>[+1]\<close> are not of the form \<^verbatim>\<open>[n]\<close> and each selects
  the element of index 1.
\<close>

theorem getNestedValue_trailing_counterexample:
  "\<not> isIndexSegment ''[1]x''
   \<and> getNestedValue plainLib (JArray [JString ''A'', JString ''B'']) [''[1]x''] = Inr ''B''
   \<and> \<not> isIndexSegment ''[ 1]''
   \<and> getNestedValue plainLib (JArray [JString ''A'', JString ''B'']) [''[ 1]''] = Inr ''B''
   \<and> \<not> isIndexSegment ''[+1]''
   \<and> getNestedValue plainLib (JArray [JString ''A'', JString ''B'']) [''[+1]''] = Inr ''B''"
  by code_simp

text \<open>
  Claim C5, amended. For every parsed JSON value and path, the resolver walks the
  segments so that: on a mapping it looks the segment up as a key and fails with a
  key-not-found error if it is absent; on an array it scans the segment with the
  format \<^verbatim>\<open>[%d]\<close>, fails with a parse error when the scan fails, and otherwise goes on
  with the element of the index read, or fails with a range error when that index is
  negative or not below the length; on any other value (a scalar) it stops and returns
  the default string form of the value. The scan succeeds exactly on the segments made
  of an opening bracket, optional white space without a newline (white space ends at
  the first character that is not white space; a newline there fails the scan), an
  optional sign \<^verbatim>\<open>+\<close> or \<^verbatim>\<open>-\<close>, one or more decimal digits whose signed value fits a
  signed 64-bit integer, and a closing bracket, whatever follows the bracket; the index
  read is that signed value. Every other segment fails with a parse error: among them
  every segment that does not start with \<^verbatim>\<open>[\<close>, and \<^verbatim>\<open>[x]\<close>, \<^verbatim>\<open>[]\<close>, \<^verbatim>\<open>[1\<close>,
  \<^verbatim>\<open>[1x]\<close> and \<^verbatim>\<open>[9223372036854775808]\<close>. In particular a segment \<^verbatim>\<open>[\<close>, digits,
  \<^verbatim>\<open>]\<close> followed by anything scans to the value of the digits when that is below
  \<open>2^63\<close>, and fails otherwise.
\<close>

theorem getNestedValue_steps:
  "getNestedValue lib (JObject m) (key # keys) =
     (case mapLookup m key of
        None \<Rightarrow> Inl (KeyNotFound key)
      | Some d \<Rightarrow> getNestedValue lib d keys)
   \<and> (Sscanf_index key = None \<longrightarrow> getNestedValue lib (JArray v) (key # keys) = Inl IndexParse)
   \<and> (Sscanf_index key = Some n \<longrightarrow>
        getNestedValue lib (JArray v) (key # keys) =
          (if 0 \<le> n \<and> n < int (length v) then getNestedValue lib (v ! nat n) keys
           else Inl (IndexRange n)))
   \<and> (Sscanf_index key = Some n \<longleftrightarrow>
        (\<exists>rest sign ds tail. key = CHR ''['' # rest
           \<and> SkipSpace rest = Some (sign @ ds @ CHR '']'' # tail)
           \<and> (sign = [] \<or> sign = ''+'' \<or> sign = ''-'')
           \<and> ds \<noteq> [] \<and> list_all isDigit ds
           \<and> (if sign = ''-'' then decimalValue ds \<le> 2 ^ 63 \<and> n = - decimalValue ds
               else decimalValue ds < 2 ^ 63 \<and> n = decimalValue ds)))
   \<and> (spaceWidth s = 0 \<longrightarrow> SkipSpace s = Some s)
   \<and> SkipSpace (CHR 0x0A # s) = None
   \<and> (c \<noteq> CHR 0x0A \<and> spaceWidth (c # s) \<noteq> 0 \<longrightarrow>
        SkipSpace (c # s) = SkipSpace (drop (spaceWidth (c # s)) (c # s)))
   \<and> (ds \<noteq> [] \<and> list_all isDigit ds \<longrightarrow>
        Sscanf_index (''['' @ ds @ '']'' @ rest) =
          (if decimalValue ds < 2 ^ 63 then Some (decimalValue ds) else None))
   \<and> (\<not> prefix ''['' key \<longrightarrow> Sscanf_index key = None)
   \<and> ((\<forall>m'. data \<noteq> JObject m') \<and> (\<forall>v'. data \<noteq> JArray v') \<longrightarrow>
        getNestedValue lib data keys = Inr (Sprintf_v lib data))"
proof -
  have scalar: "(\<forall>m'. data \<noteq> JObject m') \<and> (\<forall>v'. data \<noteq> JArray v') \<longrightarrow>
        getNestedValue lib data keys = Inr (Sprintf_v lib data)"
    by (cases keys; cases data) simp_all
  have bracket: "\<not> prefix ''['' key \<longrightarrow> Sscanf_index key = None"
    by (cases key) (auto simp: Sscanf_index_def)
  have steps: "getNestedValue lib (JObject m) (key # keys) =
     (case mapLookup m key of
        None \<Rightarrow> Inl (KeyNotFound key)
      | Some d \<Rightarrow> getNestedValue lib d keys)"
    "Sscanf_index key = None \<longrightarrow> getNestedValue lib (JArray v) (key # keys) = Inl IndexParse"
    "Sscanf_index key = Some n \<longrightarrow>
        getNestedValue lib (JArray v) (key # keys) =
          (if 0 \<le> n \<and> n < int (length v) then getNestedValue lib (v ! nat n) keys
           else Inl (IndexRange n))"
    by simp_all
  have skip: "spaceWidth s = 0 \<longrightarrow> SkipSpace s = Some s"
    "SkipSpace (CHR 0x0A # s) = None"
    "c \<noteq> CHR 0x0A \<and> spaceWidth (c # s) \<noteq> 0 \<longrightarrow>
        SkipSpace (c # s) = SkipSpace (drop (spaceWidth (c # s)) (c # s))"
    using SkipSpace_stop [of s] SkipSpace_newline [of s] SkipSpace_skip [of c s] by blast+
  have plain: "ds \<noteq> [] \<and> list_all isDigit ds \<longrightarrow>
        Sscanf_index (''['' @ ds @ '']'' @ rest) =
          (if decimalValue ds < 2 ^ 63 then Some (decimalValue ds) else None)"
    using Sscanf_index_plain [of ds rest] by blast
  from steps Sscanf_index_iff [of key n] skip plain bracket scalar
  show ?thesis by (intro conjI)
qed

text \<open>
  The record \<^verbatim>\<open>{"items":[{"sku":"A"},{"sku":"B"}]}\<close> of the specification's scenario.
\<close>

definition itemsRecord :: "(string \<times> json) list" where
  "itemsRecord =
     [(''items'', JArray [JObject [(''sku'', JString ''A'')], JObject [(''sku'', JString ''B'')]])]"

theorem getNestedValue_steps_witness:
  "getNestedValue plainLib (JObject itemsRecord) [''items'', ''[1]'', ''sku''] = Inr ''B''
   \<and> getNestedValue plainLib (JObject itemsRecord) [''item'', ''[1]''] = Inl (KeyNotFound ''item'')
   \<and> getNestedValue plainLib (JObject itemsRecord) [''items'', ''1'', ''sku''] = Inl IndexParse
   \<and> getNestedValue plainLib (JObject itemsRecord) [''items'', ''[x]'', ''sku''] = Inl IndexParse
   \<and> getNestedValue plainLib (JObject itemsRecord) [''items'', ''[]'', ''sku''] = Inl IndexParse
   \<and> getNestedValue plainLib (JObject itemsRecord) [''items'', ''[1'', ''sku''] = Inl IndexParse
   \<and> getNestedValue plainLib (JObject itemsRecord) [''items'', ''[1x]'', ''sku''] = Inl IndexParse
   \<and> getNestedValue plainLib (JObject itemsRecord) [''items'', ''[9223372036854775808]'', ''sku'']
       = Inl IndexParse
   \<and> getNestedValue plainLib (JObject itemsRecord) [''items'', ''[2]'', ''sku''] = Inl (IndexRange 2)
   \<and> getNestedValue plainLib (JObject itemsRecord) [''items'', ''[-1]'', ''sku'']
       = Inl (IndexRange (- 1))
   \<and> getNestedValue plainLib (JString ''A'') [''sku'', ''[0]''] = Inr ''A''"
proof -
  let ?arr = "[JObject [(''sku'', JString ''A'')], JObject [(''sku'', JString ''B'')]]"
  note steps = getNestedValue_steps [where lib = plainLib and s = "[]" and c = "CHR ''x''"]
  have scan: "Sscanf_index ''[1]'' = Some 1" "Sscanf_index ''[2]'' = Some 2"
    "Sscanf_index ''[-1]'' = Some (- 1)"
    "Sscanf_index ''1'' = None" "Sscanf_index ''[x]'' = None" "Sscanf_index ''[]'' = None"
    "Sscanf_index ''[1'' = None" "Sscanf_index ''[1x]'' = None"
    by code_simp+
  have big: "list_all isDigit ''9223372036854775808''"
    "decimalValue ''9223372036854775808'' = 2 ^ 63"
    by code_simp+
  have over: "Sscanf_index ''[9223372036854775808]'' = None"
    using steps [of "[]" "[]" "[]" "[]" 0 "''9223372036854775808''" "[]" JNull] big
    by simp
  have top: "\<And>ks. getNestedValue plainLib (JObject itemsRecord) (''items'' # ks)
      = getNestedValue plainLib (JArray ?arr) ks"
    "getNestedValue plainLib (JObject itemsRecord) [''item'', ''[1]''] = Inl (KeyNotFound ''item'')"
    using steps [of itemsRecord "''items''" _ "[]" 0 "''1''" "[]" JNull]
      steps [of itemsRecord "''item''" "[''[1]'']" "[]" 0 "''1''" "[]" JNull]
    by (simp_all add: itemsRecord_def mapLookup_def)
  have sku: "getNestedValue plainLib (JObject [(''sku'', JString ''B'')]) [''sku''] = Inr ''B''"
    using steps [of "[(''sku'', JString ''B'')]" "''sku''" "[]" "[]" 0 "''1''" "[]" JNull]
    by (simp add: mapLookup_def)
  have arr: "getNestedValue plainLib (JArray ?arr) [''[1]'', ''sku''] = Inr ''B''"
    "getNestedValue plainLib (JArray ?arr) [''[2]'', ''sku''] = Inl (IndexRange 2)"
    "getNestedValue plainLib (JArray ?arr) [''[-1]'', ''sku''] = Inl (IndexRange (- 1))"
    using scan sku
      steps [of "[]" "''[1]''" "[''sku'']" ?arr 1 "''1''" "[]" JNull]
      steps [of "[]" "''[2]''" "[''sku'']" ?arr 2 "''1''" "[]" JNull]
      steps [of "[]" "''[-1]''" "[''sku'']" ?arr "- 1" "''1''" "[]" JNull]
    by simp_all
  have bad: "getNestedValue plainLib (JArray ?arr) [''1'', ''sku''] = Inl IndexParse"
    "getNestedValue plainLib (JArray ?arr) [''[x]'', ''sku''] = Inl IndexParse"
    "getNestedValue plainLib (JArray ?arr) [''[]'', ''sku''] = Inl IndexParse"
    "getNestedValue plainLib (JArray ?arr) [''[1'', ''sku''] = Inl IndexParse"
    "getNestedValue plainLib (JArray ?arr) [''[1x]'', ''sku''] = Inl IndexParse"
    "getNestedValue plainLib (JArray ?arr) [''[9223372036854775808]'', ''sku''] = Inl IndexParse"
    using scan over
      steps [of "[]" "''1''" "[''sku'']" ?arr 0 "''1''" "[]" JNull]
      steps [of "[]" "''[x]''" "[''sku'']" ?arr 0 "''1''" "[]" JNull]
      steps [of "[]" "''[]''" "[''sku'']" ?arr 0 "''1''" "[]" JNull]
      steps [of "[]" "''[1''" "[''sku'']" ?arr 0 "''1''" "[]" JNull]
      steps [of "[]" "''[1x]''" "[''sku'']" ?arr 0 "''1''" "[]" JNull]
      steps [of "[]" "''[9223372036854775808]''" "[''sku'']" ?arr 0 "''1''" "[]" JNull]
    by simp_all
  have str: "getNestedValue plainLib (JString ''A'') [''sku'', ''[0]''] = Inr ''A''"
    using steps [of "[]" "''sku''" "[''[0]'']" "[]" 0 "''1''" "[]" "JString ''A''"]
    by simp
  show ?thesis
    unfolding top arr bad str by (simp only: simp_thms)
qed

section \<open>Rows\<close>

text \<open>The record \<^verbatim>\<open>{"id":"X1","author":{"name":"A"}}\<close>.\<close>

definition authorRecord :: "(string \<times> json) list" where
  "authorRecord = [(''id'', JString ''X1''), (''author'', JObject [(''name'', JString ''A'')])]"

lemma isEmptyOrAllNull_iff:
  "isEmptyOrAllNull cfg row = (\<forall>v\<in>set row. v = [] \<or> v = handleNullValue cfg [])"
  by (induction row) auto

lemma processColumns_fields:
  "processColumns lib g item profile parseContent htmlValues cols = (Inr row, lg) \<Longrightarrow>
   length row = length cols
   \<and> (\<forall>i<length cols. \<exists>value.
         fst (columnValue lib item profile parseContent htmlValues (cols ! i)) = Inr value
         \<and> row ! i = finishValue lib g (cols ! i) value)"
proof (induction cols arbitrary: row lg)
  case Nil
  then show ?case by simp
next
  case (Cons c cols)
  from Cons.prems obtain val lg1 row' lg2 where
    cv: "columnValue lib item profile parseContent htmlValues c = (Inr val, lg1)"
    and rest: "processColumns lib g item profile parseContent htmlValues cols = (Inr row', lg2)"
    and row: "row = finishValue lib g c val # row'"
    by (auto split: prod.splits sum.splits)
  from Cons.IH [OF rest] have ih: "length row' = length cols"
    "\<forall>i<length cols. \<exists>value.
         fst (columnValue lib item profile parseContent htmlValues (cols ! i)) = Inr value
         \<and> row' ! i = finishValue lib g (cols ! i) value"
    by simp_all
  show ?case
  proof (intro conjI allI impI)
    show "length row = length (c # cols)" using ih(1) row by simp
  next
    fix i assume "i < length (c # cols)"
    then show "\<exists>value. fst (columnValue lib item profile parseContent htmlValues ((c # cols) ! i))
           = Inr value
         \<and> row ! i = finishValue lib g ((c # cols) ! i) value"
      using cv ih(2) row by (cases i) auto
  qed
qed

text \<open>
  Claim C4. Whenever the row builder returns without an error, it has built one field
  per column, each the value of the column's source after cleaning, newline policy
  and null policy, and it returns that row if and only if at least one field is
  neither the empty string nor the configured null sentinel (the value of
  \<^verbatim>\<open>handleNullValue("")\<close>); a row whose fields are all empty or equal to the sentinel
  is dropped (\<^verbatim>\<open>nil\<close> is returned).
\<close>

theorem processJSONItem_row_iff:
  "fst (processJSONItem lib g item profile) = Inr r \<Longrightarrow>
   \<exists>parseContent htmlValues lg0 row lg.
     resolveBody lib item profile = Inr (parseContent, htmlValues, lg0)
     \<and> processColumns lib g item profile parseContent htmlValues (Columns profile) = (Inr row, lg)
     \<and> length row = length (Columns profile)
     \<and> (\<forall>i<length (Columns profile). \<exists>value.
           fst (columnValue lib item profile parseContent htmlValues (Columns profile ! i)) = Inr value
           \<and> row ! i =
               handleNullValue (config g)
                 (handleNewlines (config g)
                    (if CleanHTML (Columns profile ! i)
                     then cleanHTMLContent lib (profileName g) value else value)))
     \<and> ((\<exists>v\<in>set row. v \<noteq> [] \<and> v \<noteq> handleNullValue (config g) []) \<longrightarrow> r = Some row)
     \<and> ((\<forall>v\<in>set row. v = [] \<or> v = handleNullValue (config g) []) \<longrightarrow> r = None)"
proof -
  assume a: "fst (processJSONItem lib g item profile) = Inr r"
  then obtain parseContent htmlValues lg0 where
    rb: "resolveBody lib item profile = Inr (parseContent, htmlValues, lg0)"
    by (auto simp: processJSONItem_def split: sum.splits prod.splits)
  with a obtain row lg where
    pc: "processColumns lib g item profile parseContent htmlValues (Columns profile) = (Inr row, lg)"
    and r: "r = (if isEmptyOrAllNull (config g) row then None else Some row)"
    by (auto simp: processJSONItem_def split: sum.splits prod.splits)
  from processColumns_fields [OF pc] have f: "length row = length (Columns profile)"
    "\<forall>i<length (Columns profile). \<exists>value.
         fst (columnValue lib item profile parseContent htmlValues (Columns profile ! i)) = Inr value
         \<and> row ! i = finishValue lib g (Columns profile ! i) value"
    by simp_all
  show ?thesis
    using rb pc f r
    by (intro exI [of _ parseContent] exI [of _ htmlValues] exI [of _ lg0] exI [of _ row]
        exI [of _ lg])
      (auto simp: isEmptyOrAllNull_iff finishValue_def)
qed

theorem processJSONItem_row_iff_witness:
  "fst (processJSONItem plainLib (defaultGlobals ''empty'') authorRecord
          (jsonProfile [jsonColumn ''ID'' ''id'', jsonColumn ''Author'' ''author.name'']))
     = Inr (Some [''X1'', ''A''])
   \<and> fst (processJSONItem plainLib (defaultGlobals ''null'') authorRecord
          (jsonProfile [jsonColumn ''ID'' ''uid'', jsonColumn ''Author'' ''author.email'']))
     = Inr None"
proof -
  have e1: "fst (processJSONItem plainLib (defaultGlobals ''empty'') authorRecord
          (jsonProfile [jsonColumn ''ID'' ''id'', jsonColumn ''Author'' ''author.name'']))
     = Inr (Some [''X1'', ''A''])"
    by code_simp
  have e2: "fst (processJSONItem plainLib (defaultGlobals ''null'') authorRecord
          (jsonProfile [jsonColumn ''ID'' ''uid'', jsonColumn ''Author'' ''author.email'']))
     = Inr None"
    by code_simp
  show ?thesis
    using e1 e2
      processJSONItem_row_iff [OF e1] processJSONItem_row_iff [OF e2]
    by simp
qed

section \<open>Paths that do not resolve\<close>














section \<open>Cleaned text\<close>

text \<open>
  \<open>adjacent P s\<close>: some character of \<open>s\<close> and the next one satisfy \<open>P\<close>. It states
  that a text has two spaces in a row, a colon directly before a character that is not
  white space, or two question marks in a row.
\<close>

fun adjacent :: "(char \<Rightarrow> char \<Rightarrow> bool) \<Rightarrow> string \<Rightarrow> bool" where
  "adjacent P (a # b # s) = (P a b \<or> adjacent P (b # s))"
| "adjacent P [a] = False"
| "adjacent P [] = False"

lemma adjacent_Cons:
  "adjacent P (a # s) = (case s of [] \<Rightarrow> False | b # r \<Rightarrow> P a b \<or> adjacent P s)"
  by (cases s) simp_all

lemma collapseSpace_id:
  "\<forall>c\<in>set t. reSpace c \<longrightarrow> c = CHR '' '' \<Longrightarrow>
   \<not> adjacent (\<lambda>a b. a = CHR '' '' \<and> b = CHR '' '') t \<Longrightarrow> collapseSpace t = t"
proof (induction t rule: collapseSpace.induct)
  case 1
  then show ?case by simp
next
  case (2 c cs)
  show ?case
  proof (cases "reSpace c")
    case True
    with 2 have c: "c = CHR '' ''" by simp
    have d: "dropWhile reSpace cs = cs"
    proof (cases cs)
      case Nil
      then show ?thesis by simp
    next
      case (Cons x xs)
      with 2(4) c have "x \<noteq> CHR '' ''" by auto
      with 2(3) Cons have "\<not> reSpace x" by auto
      with Cons show ?thesis by simp
    qed
    from 2(3,4) have "\<forall>c\<in>set cs. reSpace c \<longrightarrow> c = CHR '' ''"
      "\<not> adjacent (\<lambda>a b. a = CHR '' '' \<and> b = CHR '' '') cs"
      by (auto simp: adjacent_Cons split: list.splits)
    with 2(1) [OF True] d have "collapseSpace cs = cs" by simp
    with True c d show ?thesis by simp
  next
    case False
    from 2(3,4) have "\<forall>c\<in>set cs. reSpace c \<longrightarrow> c = CHR '' ''"
      "\<not> adjacent (\<lambda>a b. a = CHR '' '' \<and> b = CHR '' '') cs"
      by (auto simp: adjacent_Cons split: list.splits)
    with 2(2) [OF False] have "collapseSpace cs = cs" by simp
    with False show ?thesis by simp
  qed
qed

lemma colonSpace_id:
  "\<not> adjacent (\<lambda>a b. a = CHR '':'' \<and> \<not> reSpace b) t \<Longrightarrow> colonSpace t = t"
  by (induction t rule: colonSpace.induct) auto

lemma ReplaceAll_id:
  "\<not> adjacent (\<lambda>a b. a = CHR ''?'' \<and> b = CHR ''?'') t \<Longrightarrow> ReplaceAll t ''??'' new = t"
proof (induction t)
  case Nil
  then show ?case by simp
next
  case (Cons c cs)
  then have np: "\<not> (c = CHR ''?'' \<and> prefix ''?'' cs)"
    and "\<not> adjacent (\<lambda>a b. a = CHR ''?'' \<and> b = CHR ''?'') cs"
    by (auto simp: adjacent_Cons prefix_def split: list.splits)
  with Cons.IH have "ReplaceAll cs ''??'' new = cs" by simp
  with np show ?case by auto
qed

lemma TrimSpace_id: "spaceWidth t = 0 \<Longrightarrow> spaceWidthLast (rev t) = 0 \<Longrightarrow> TrimSpace t = t"
proof -
  assume a: "spaceWidth t = 0" and b: "spaceWidthLast (rev t) = 0"
  from a have l: "TrimLeftSpace t = t" by (subst TrimLeftSpace.simps) simp
  from b have r: "TrimRightRev (rev t) = rev t" by (subst TrimRightRev.simps) simp
  show ?thesis by (simp add: TrimSpace_def l r)
qed

lemma collapseSpace_only_space: "\<forall>c\<in>set (collapseSpace s). reSpace c \<longrightarrow> c = CHR '' ''"
  by (induction s rule: collapseSpace.induct) auto

lemma collapseSpace_no_run:
  "\<not> adjacent (\<lambda>a b. a = CHR '' '' \<and> b = CHR '' '') (collapseSpace s)"
proof (induction s rule: collapseSpace.induct)
  case 1
  then show ?case by simp
next
  case (2 c cs)
  show ?case
  proof (cases "reSpace c")
    case True
    define d where "d = dropWhile reSpace cs"
    from True have eq: "collapseSpace (c # cs) = CHR '' '' # collapseSpace d"
      unfolding d_def by simp
    from 2(1) [OF True]
    have ih: "\<not> adjacent (\<lambda>a b. a = CHR '' '' \<and> b = CHR '' '') (collapseSpace d)"
      unfolding d_def .
    show ?thesis
    proof (cases d)
      case Nil
      show ?thesis unfolding eq Nil by simp
    next
      case (Cons x xs)
      have "d \<noteq> []" using Cons by simp
      then have "\<not> reSpace (hd d)" unfolding d_def by (rule hd_dropWhile)
      then have nx: "\<not> reSpace x" unfolding Cons by simp
      then have xs: "x \<noteq> CHR '' ''" by (auto simp: reSpace_def)
      from nx have cd: "collapseSpace (x # xs) = x # collapseSpace xs" by simp
      from ih have "\<not> adjacent (\<lambda>a b. a = CHR '' '' \<and> b = CHR '' '') (x # collapseSpace xs)"
        unfolding Cons cd .
      with xs show ?thesis unfolding eq Cons cd by simp
    qed
  next
    case False
    then have cn: "c \<noteq> CHR '' ''" by (auto simp: reSpace_def)
    from False have eq: "collapseSpace (c # cs) = c # collapseSpace cs" by simp
    from 2(2) [OF False] cn show ?thesis
      unfolding eq by (cases "collapseSpace cs") simp_all
  qed
qed

lemma spaceWidth_TrimLeftSpace: "spaceWidth (TrimLeftSpace s) = 0"
proof (induction s rule: TrimLeftSpace.induct)
  case (1 s)
  show ?case
  proof (cases "spaceWidth s = 0")
    case True
    then have "TrimLeftSpace s = s" by (subst TrimLeftSpace.simps) simp
    with True show ?thesis by simp
  next
    case False
    then have "TrimLeftSpace s = TrimLeftSpace (drop (spaceWidth s) s)"
      by (subst TrimLeftSpace.simps) simp
    with 1 [OF False] show ?thesis by simp
  qed
qed

lemma spaceWidthLast_TrimRightRev: "spaceWidthLast (TrimRightRev r) = 0"
proof (induction r rule: TrimRightRev.induct)
  case (1 r)
  show ?case
  proof (cases "spaceWidthLast r = 0")
    case True
    then have "TrimRightRev r = r" by (subst TrimRightRev.simps) simp
    with True show ?thesis by simp
  next
    case False
    then have "TrimRightRev r = TrimRightRev (drop (spaceWidthLast r) r)"
      by (subst TrimRightRev.simps) simp
    with 1 [OF False] show ?thesis by simp
  qed
qed

lemma TrimRightRev_drop: "\<exists>n. TrimRightRev r = drop n r"
proof (induction r rule: TrimRightRev.induct)
  case (1 r)
  show ?case
  proof (cases "spaceWidthLast r = 0")
    case True
    then have "TrimRightRev r = r" by (subst TrimRightRev.simps) simp
    then have "TrimRightRev r = drop 0 r" by simp
    then show ?thesis by blast
  next
    case False
    with 1 obtain n where "TrimRightRev (drop (spaceWidthLast r) r) = drop n (drop (spaceWidthLast r) r)"
      by blast
    moreover from False have "TrimRightRev r = TrimRightRev (drop (spaceWidthLast r) r)"
      by (subst TrimRightRev.simps) simp
    ultimately have "TrimRightRev r = drop (n + spaceWidthLast r) r"
      by simp
    then show ?thesis by blast
  qed
qed

lemma TrimLeftSpace_drop: "\<exists>n. TrimLeftSpace s = drop n s"
proof (induction s rule: TrimLeftSpace.induct)
  case (1 s)
  show ?case
  proof (cases "spaceWidth s = 0")
    case True
    then have "TrimLeftSpace s = s" by (subst TrimLeftSpace.simps) simp
    then have "TrimLeftSpace s = drop 0 s" by simp
    then show ?thesis by blast
  next
    case False
    with 1 obtain n where "TrimLeftSpace (drop (spaceWidth s) s) = drop n (drop (spaceWidth s) s)"
      by blast
    moreover from False have "TrimLeftSpace s = TrimLeftSpace (drop (spaceWidth s) s)"
      by (subst TrimLeftSpace.simps) simp
    ultimately have "TrimLeftSpace s = drop (n + spaceWidth s) s"
      by simp
    then show ?thesis by blast
  qed
qed

lemma spaceWidth_take: "spaceWidth t = 0 \<Longrightarrow> spaceWidth (take k t) = 0"
proof (induction t rule: spaceWidth.induct)
  case 1
  then show ?case by simp
next
  case (2 a)
  then show ?case by (cases k) (simp_all split: if_splits)
next
  case (3 a b)
  then show ?case
    by (cases k; cases "k - 1") (simp_all split: if_splits)
next
  case (4 a b c cs)
  then show ?case
    by (cases k; cases "k - 1"; cases "k - 2") (simp_all split: if_splits)
qed

lemma TrimSpace_trimmed: "spaceWidth (TrimSpace s) = 0 \<and> spaceWidthLast (rev (TrimSpace s)) = 0"
proof -
  obtain n where n: "TrimRightRev (rev (TrimLeftSpace s)) = drop n (rev (TrimLeftSpace s))"
    using TrimRightRev_drop by blast
  have "rev (drop n (rev (TrimLeftSpace s))) = take (length (TrimLeftSpace s) - n) (TrimLeftSpace s)"
    by (simp add: rev_drop)
  then have "spaceWidth (TrimSpace s) = 0"
    using n spaceWidth_take [OF spaceWidth_TrimLeftSpace] by (simp add: TrimSpace_def)
  moreover have "spaceWidthLast (rev (TrimSpace s)) = 0"
    by (simp add: TrimSpace_def spaceWidthLast_TrimRightRev)
  ultimately show ?thesis by simp
qed

lemma set_TrimSpace: "set (TrimSpace s) \<subseteq> set s"
proof -
  obtain n where n: "TrimLeftSpace s = drop n s" using TrimLeftSpace_drop by blast
  obtain m where m: "TrimRightRev (rev (drop n s)) = drop m (rev (drop n s))"
    using TrimRightRev_drop by blast
  have "set (TrimSpace s) = set (drop m (rev (drop n s)))"
    by (simp add: TrimSpace_def n m)
  also have "\<dots> \<subseteq> set (rev (drop n s))" by (rule set_drop_subset)
  also have "\<dots> \<subseteq> set s" using set_drop_subset [of n s] by simp
  finally show ?thesis .
qed

lemma set_colonSpace: "set (colonSpace s) \<subseteq> insert (CHR '' '') (set s)"
  by (induction s rule: colonSpace.induct) auto

lemma set_ReplaceAll: "set (ReplaceAll s old new) \<subseteq> set s \<union> set new"
proof (induction s old new rule: ReplaceAll.induct)
  case (1 old new)
  then show ?case by simp
next
  case (2 c cs old new)
  show ?case
  proof (cases "old \<noteq> [] \<and> prefix old (c # cs)")
    case True
    from 2(1) [OF True] have "set (ReplaceAll (drop (length old) (c # cs)) old new)
        \<subseteq> set (drop (length old) (c # cs)) \<union> set new" .
    also have "\<dots> \<subseteq> set (c # cs) \<union> set new"
      using set_drop_subset [of "length old" "c # cs"] by blast
    finally show ?thesis using True by auto
  next
    case False
    from 2(2) [OF False] False show ?thesis by auto
  qed
qed

text \<open>
  Claim C7, as stated, fails: the \<open>clean_html\<close> normalization would turn every U+00A0
  into a regular space. \<^verbatim>\<open>cleanHTMLContent\<close> has no step for it: the class \<^verbatim>\<open>\s\<close> of
  its whitespace pattern does not hold U+00A0, and \<^verbatim>\<open>strings.TrimSpace\<close> removes it at
  the two ends only. The text \<^verbatim>\<open>a\<close>, U+00A0, \<^verbatim>\<open>b\<close> comes back as it is. (The function
  \<^verbatim>\<open>cleanValue\<close> of the source, which nothing calls, does replace it.) Nor is every
  run of white space one space in the result: \<^verbatim>\<open>??\<close> is replaced by a colon and a space
  after the runs are collapsed, so \<^verbatim>\<open>a?? b\<close> comes back with two spaces.
\<close>

theorem cleanHTMLContent_nbsp_counterexample:
  "cleanHTMLContent plainLib ''default'' (''a'' @ [CHR 0xC2, CHR 0xA0] @ ''b'')
     = ''a'' @ [CHR 0xC2, CHR 0xA0] @ ''b''
   \<and> cleanValue (''a'' @ [CHR 0xC2, CHR 0xA0] @ ''b'') = ''a b''
   \<and> cleanHTMLContent plainLib ''default'' ''a?? b'' = ''a:  b''"
  by code_simp

text \<open>
  Claim C7, amended. For every input string that the HTML parser reads into a tree,
  under a profile other than \<^verbatim>\<open>teams\<close> and \<^verbatim>\<open>replies\<close>, the \<open>clean_html\<close>
  normalization keeps the data of the text nodes of the tree (where the parser has
  decoded the entities) and the literal \<^verbatim>\<open><br>\<close> for each \<^verbatim>\<open>br\<close> element, and nothing
  of any other tag or node; it replaces every run of white space (tab, newline, form
  feed, carriage return, space) in that text by one space, then inserts a space after
  the colon of every match of a colon and a character after it that is not white space
  (the matches are taken from left to right and do not overlap: \<^verbatim>\<open>a::b\<close> gives
  \<^verbatim>\<open>a: :b\<close>), then replaces \<^verbatim>\<open>??\<close> by a colon and a space, and last trims the
  white space at both ends.
  In the result the only white space of that class is the space, and the result
  neither starts nor ends with a white-space character.
\<close>

theorem cleanHTMLContent_steps:
  "name \<noteq> ''teams'' \<Longrightarrow> name \<noteq> ''replies'' \<Longrightarrow> Parse lib content = Inr doc \<Longrightarrow>
   cleanHTMLContent lib name content =
     TrimSpace (ReplaceAll (colonSpace (collapseSpace (collectText doc))) ''??'' '': '')
   \<and> (\<forall>c\<in>set (collapseSpace (collectText doc)). reSpace c \<longrightarrow> c = CHR '' '')
   \<and> \<not> adjacent (\<lambda>a b. a = CHR '' '' \<and> b = CHR '' '') (collapseSpace (collectText doc))
   \<and> (\<forall>c\<in>set (cleanHTMLContent lib name content). reSpace c \<longrightarrow> c = CHR '' '')
   \<and> spaceWidth (cleanHTMLContent lib name content) = 0
   \<and> spaceWidthLast (rev (cleanHTMLContent lib name content)) = 0
   \<and> collectText (Node TextNode d cs) = d @ concat (map collectText cs)
   \<and> collectText (Node ElementNode tag cs) =
        (if tag = ''br'' then ''<br>'' else []) @ concat (map collectText cs)
   \<and> (t \<noteq> TextNode \<and> t \<noteq> ElementNode \<longrightarrow>
        collectText (Node t d cs) = concat (map collectText cs))"
proof -
  assume a: "name \<noteq> ''teams''" "name \<noteq> ''replies''" "Parse lib content = Inr doc"
  let ?text = "collapseSpace (collectText doc)"
  let ?r = "cleanHTMLContent lib name content"
  from a have eq: "?r = TrimSpace (ReplaceAll (colonSpace ?text) ''??'' '': '')"
    by (simp add: cleanHTMLContent_def)
  have sub: "set ?r \<subseteq> set ?text \<union> {CHR '' '', CHR '':''}"
  proof -
    have "set ?r \<subseteq> set (ReplaceAll (colonSpace ?text) ''??'' '': '')"
      unfolding eq by (rule set_TrimSpace)
    also have "\<dots> \<subseteq> set (colonSpace ?text) \<union> set '': ''" by (rule set_ReplaceAll)
    also have "\<dots> \<subseteq> set ?text \<union> {CHR '' '', CHR '':''}"
      using set_colonSpace [of ?text] by auto
    finally show ?thesis .
  qed
  have colon: "\<not> reSpace (CHR '':'')" by (simp add: reSpace_def)
  have out: "\<forall>c\<in>set ?r. reSpace c \<longrightarrow> c = CHR '' ''"
    using sub collapseSpace_only_space [of "collectText doc"] colon by blast
  have trimmed: "spaceWidth ?r = 0 \<and> spaceWidthLast (rev ?r) = 0"
    unfolding eq by (rule TrimSpace_trimmed)
  show ?thesis
    using eq out trimmed collapseSpace_only_space [of "collectText doc"]
      collapseSpace_no_run [of "collectText doc"]
    by simp
qed

text \<open>
  The body \<^verbatim>\<open><p>Dear  Bob,<br>see  you</p>\<close> and the tree that the HTML parser builds
  for it.
\<close>

definition breakBody :: string where
  "breakBody = ''<p>Dear  Bob,<br>see  you</p>''"

definition breakTree :: Node where
  "breakTree =
     htmlDocument
       [Node ElementNode ''p''
          [Node TextNode ''Dear  Bob,'' [], Node ElementNode ''br'' [], Node TextNode ''see  you'' []]]"

theorem cleanHTMLContent_steps_witness:
  "cleanHTMLContent (withParse plainLib breakBody breakTree) ''default'' breakBody
     = ''Dear Bob,<br>see you''
   \<and> cleanHTMLContent plainLib ''default'' (''  Name:Alice '' @ [CHR 0x0A, CHR 0x09] @ ''Smith '')
     = ''Name: Alice Smith''"
proof -
  have p1: "Parse (withParse plainLib breakBody breakTree) breakBody = Inr breakTree"
    by (simp add: withParse_def)
  have p2: "Parse plainLib (''  Name:Alice '' @ [CHR 0x0A, CHR 0x09] @ ''Smith '')
      = Inr (htmlDocument [Node TextNode (''Name:Alice '' @ [CHR 0x0A, CHR 0x09] @ ''Smith '') []])"
    by code_simp
  have n: "''default'' \<noteq> ''teams''" "''default'' \<noteq> ''replies''" by simp_all
  have e1: "TrimSpace (ReplaceAll (colonSpace (collapseSpace (collectText breakTree))) ''??'' '': '')
      = ''Dear Bob,<br>see you''"
    by code_simp
  have e2: "TrimSpace (ReplaceAll (colonSpace (collapseSpace (collectText
        (htmlDocument [Node TextNode (''Name:Alice '' @ [CHR 0x0A, CHR 0x09] @ ''Smith '') []]))))
        ''??'' '': '') = ''Name: Alice Smith''"
    by code_simp
  from cleanHTMLContent_steps [OF n p1, THEN conjunct1] e1
  have r1: "cleanHTMLContent (withParse plainLib breakBody breakTree) ''default'' breakBody
     = ''Dear Bob,<br>see you''"
    by (simp only:)
  from cleanHTMLContent_steps [OF n p2, THEN conjunct1] e2
  have r2: "cleanHTMLContent plainLib ''default'' (''  Name:Alice '' @ [CHR 0x0A, CHR 0x09] @ ''Smith '')
     = ''Name: Alice Smith''"
    by (simp only:)
  from r1 r2 show ?thesis by (simp only: simp_thms)
qed

text \<open>
  The text \<^verbatim>\<open>&lt;b&gt;x\<close>, in which the parser decodes the two entities, and the text
  \<^verbatim>\<open><b>x\<close>, in which it reads an element, with their trees.
\<close>

definition escapedLib :: Lib where
  "escapedLib =
     withParse
       (withParse plainLib ''&lt;b&gt;x'' (htmlDocument [Node TextNode ''<b>x'' []]))
       ''<b>x'' (htmlDocument [Node ElementNode ''b'' [Node TextNode ''x'' []]])"

text \<open>
  Claim C8, as stated, fails: applying the \<open>clean_html\<close> normalization to its own
  output would return that output. The replacement of \<^verbatim>\<open>??\<close> by a colon and a space
  comes after the white space is collapsed, so \<^verbatim>\<open>a?? b\<close> gives a text with two spaces
  that a second pass collapses; and the first pass leaves the decoded text \<^verbatim>\<open><b>x\<close> of
  \<^verbatim>\<open>&lt;b&gt;x\<close>, which the second pass reads as markup.
\<close>

theorem cleanHTMLContent_twice_counterexample:
  "cleanHTMLContent plainLib ''default'' ''a?? b'' = ''a:  b''
   \<and> cleanHTMLContent plainLib ''default'' (cleanHTMLContent plainLib ''default'' ''a?? b'') = ''a: b''
   \<and> cleanHTMLContent escapedLib ''default'' ''&lt;b&gt;x'' = ''<b>x''
   \<and> cleanHTMLContent escapedLib ''default'' (cleanHTMLContent escapedLib ''default'' ''&lt;b&gt;x'')
       = ''x''"
  by code_simp

text \<open>
  Claim C8, amended. Already-clean text is a fixed point of the \<open>clean_html\<close>
  normalization under a profile other than \<^verbatim>\<open>teams\<close> and \<^verbatim>\<open>replies\<close>: a text that the
  HTML parser reads as itself (no markup, no entity), whose only white space is single
  spaces between other characters (none at either end), that has no colon directly
  before a character other than a space and no \<^verbatim>\<open>??\<close>, is returned unchanged.
\<close>

theorem cleanHTMLContent_clean_text:
  "name \<noteq> ''teams'' \<Longrightarrow> name \<noteq> ''replies'' \<Longrightarrow>
   Parse lib t = Inr doc \<Longrightarrow> collectText doc = t \<Longrightarrow>
   \<forall>c\<in>set t. reSpace c \<longrightarrow> c = CHR '' '' \<Longrightarrow>
   \<not> adjacent (\<lambda>a b. a = CHR '' '' \<and> b = CHR '' '') t \<Longrightarrow>
   \<not> adjacent (\<lambda>a b. a = CHR '':'' \<and> \<not> reSpace b) t \<Longrightarrow>
   \<not> adjacent (\<lambda>a b. a = CHR ''?'' \<and> b = CHR ''?'') t \<Longrightarrow>
   spaceWidth t = 0 \<Longrightarrow> spaceWidthLast (rev t) = 0 \<Longrightarrow>
   cleanHTMLContent lib name t = t"
  by (simp add: cleanHTMLContent_def collapseSpace_id colonSpace_id ReplaceAll_id TrimSpace_id)

theorem cleanHTMLContent_clean_text_witness:
  "cleanHTMLContent plainLib ''default'' ''Name: Alice Smith'' = ''Name: Alice Smith''"
proof -
  have n: "''default'' \<noteq> ''teams''" "''default'' \<noteq> ''replies''" by simp_all
  have p: "Parse plainLib ''Name: Alice Smith'' = Inr (htmlDocument [Node TextNode ''Name: Alice Smith'' []])"
    by code_simp
  have c: "collectText (htmlDocument [Node TextNode ''Name: Alice Smith'' []]) = ''Name: Alice Smith''"
    by code_simp
  have h1: "\<forall>c\<in>set ''Name: Alice Smith''. reSpace c \<longrightarrow> c = CHR '' ''"
    by code_simp
  have h2: "\<not> adjacent (\<lambda>a b. a = CHR '' '' \<and> b = CHR '' '') ''Name: Alice Smith''"
    by code_simp
  have h3: "\<not> adjacent (\<lambda>a b. a = CHR '':'' \<and> \<not> reSpace b) ''Name: Alice Smith''"
    by code_simp
  have h4: "\<not> adjacent (\<lambda>a b. a = CHR ''?'' \<and> b = CHR ''?'') ''Name: Alice Smith''"
    by code_simp
  have h5: "spaceWidth ''Name: Alice Smith'' = 0" by code_simp
  have h6: "spaceWidthLast (rev ''Name: Alice Smith'') = 0" by code_simp
  show ?thesis
    by (rule cleanHTMLContent_clean_text [OF n p c h1 h2 h3 h4 h5 h6])
qed

end
